theory Spec2Isabelle
  imports Complex_Main
begin

section \<open>Python values used by \<^verbatim>\<open>watch_alebilet.py\<close>\<close>

subsection \<open>Strings\<close>

text \<open>
  A Python \<^verbatim>\<open>str\<close> is a sequence of Unicode code points, so it is a list of
  naturals here (\<open>char\<close> is a byte and could not hold \<^verbatim>\<open>U+0142\<close>, the second
  letter of the currency suffix). \<open>cp\<close> writes an ASCII literal.
\<close>

type_synonym pystr = "nat list"

definition cp :: "string \<Rightarrow> pystr" where
  "cp s = map of_char s"

text \<open>\<^verbatim>\<open>str.isspace\<close> of one code point (the table of CPython 3.11, Unicode 14).\<close>

definition py_isspace :: "nat \<Rightarrow> bool" where
  "py_isspace c \<longleftrightarrow>
     (9 \<le> c \<and> c \<le> 13) \<or> (28 \<le> c \<and> c \<le> 32) \<or> c = 133 \<or> c = 160 \<or> c = 5760 \<or>
     (8192 \<le> c \<and> c \<le> 8202) \<or> c = 8232 \<or> c = 8233 \<or> c = 8239 \<or> c = 8287 \<or> c = 12288"

text \<open>\<^verbatim>\<open>s.strip()\<close>\<close>

definition py_strip :: "pystr \<Rightarrow> pystr" where
  "py_strip s = rev (dropWhile py_isspace (rev (dropWhile py_isspace s)))"

text \<open>
  \<^verbatim>\<open>s.lower()\<close>, one code point at a time. The mapping is the one of CPython on Basic
  Latin, Latin-1 Supplement and Latin Extended-A, which hold every letter of Polish; code
  points from \<^verbatim>\<open>U+0180\<close> on are left as they are. The only code points outside
  ASCII that \<^verbatim>\<open>lower\<close> maps to something containing an ASCII letter are
  \<^verbatim>\<open>U+0130\<close> (to \<open>i\<close> and a combining dot) and \<^verbatim>\<open>U+212A\<close> (to \<open>k\<close>);
  neither letter occurs in a text the program compares with.
\<close>

definition lower_cp :: "nat \<Rightarrow> pystr" where
  "lower_cp c =
     (if 65 \<le> c \<and> c \<le> 90 then [c + 32]
      else if 192 \<le> c \<and> c \<le> 222 \<and> c \<noteq> 215 then [c + 32]
      else if c = 304 then [105, 775]
      else if c = 376 then [255]
      else if ((256 \<le> c \<and> c \<le> 311) \<or> (330 \<le> c \<and> c \<le> 375)) \<and> even c then [c + 1]
      else if ((313 \<le> c \<and> c \<le> 328) \<or> (377 \<le> c \<and> c \<le> 382)) \<and> odd c then [c + 1]
      else [c])"

definition py_lower :: "pystr \<Rightarrow> pystr" where
  "py_lower s = concat (map lower_cp s)"

text \<open>
  \<^verbatim>\<open>s.replace(old, new)\<close>: the occurrences of \<open>old\<close> are replaced from the left,
  without overlap. With an empty \<open>old\<close> Python puts \<open>new\<close> before every code point
  and at the end.
\<close>

function py_replace :: "pystr \<Rightarrow> pystr \<Rightarrow> pystr \<Rightarrow> pystr" where
  "py_replace old new s =
     (if old = [] then new @ concat (map (\<lambda>c. c # new) s)
      else if s = [] then []
      else if take (length old) s = old then new @ py_replace old new (drop (length old) s)
      else hd s # py_replace old new (tl s))"
  by pat_completeness auto
termination
  by (relation "measure (\<lambda>(old, new, s). length s)") auto

declare py_replace.simps [simp del]

text \<open>\<^verbatim>\<open>s.replace(old, new, count)\<close> with a count \<open>n \<ge> 0\<close>.\<close>

function py_replace_n :: "pystr \<Rightarrow> pystr \<Rightarrow> nat \<Rightarrow> pystr \<Rightarrow> pystr" where
  "py_replace_n old new n s =
     (if n = 0 then s
      else if old = [] then
        new @ concat (map (\<lambda>c. c # new) (take (n - 1) s)) @ drop (n - 1) s
      else if s = [] then []
      else if take (length old) s = old
        then new @ py_replace_n old new (n - 1) (drop (length old) s)
      else hd s # py_replace_n old new n (tl s))"
  by pat_completeness auto
termination
  by (relation "measure (\<lambda>(old, new, n, s). length s)") auto

declare py_replace_n.simps [simp del]

text \<open>\<^verbatim>\<open>sub in s\<close>\<close>

fun py_in :: "pystr \<Rightarrow> pystr \<Rightarrow> bool" where
  "py_in sub [] \<longleftrightarrow> sub = []"
| "py_in sub (c # cs) \<longleftrightarrow> take (length sub) (c # cs) = sub \<or> py_in sub cs"

text \<open>\<^verbatim>\<open>sep.join(xs)\<close>\<close>

fun py_join :: "pystr \<Rightarrow> pystr list \<Rightarrow> pystr" where
  "py_join sep [] = []"
| "py_join sep [x] = x"
| "py_join sep (x # y # ys) = x @ sep @ py_join sep (y # ys)"

text \<open>\<^verbatim>\<open>str(i)\<close> of an integer.\<close>

fun digits10 :: "nat \<Rightarrow> pystr" where
  "digits10 n = (if n < 10 then [48 + n] else digits10 (n div 10) @ [48 + n mod 10])"

declare digits10.simps [simp del]

definition str_int :: "int \<Rightarrow> pystr" where
  "str_int i = (if i < 0 then 45 # digits10 (nat (- i)) else digits10 (nat i))"

subsection \<open>Exceptions\<close>

text \<open>
  An exception is its class and the text \<^verbatim>\<open>str(e)\<close> gives. Every class here is a
  subclass of \<^verbatim>\<open>Exception\<close>, so \<^verbatim>\<open>except Exception\<close> catches all of them.
\<close>

datatype exn_class = RuntimeError | ValueError | AttributeError | OSError | OtherError

datatype exn = Exn exn_class pystr

fun str_exn :: "exn \<Rightarrow> pystr" where
  "str_exn (Exn k m) = m"

subsection \<open>Floats\<close>

text \<open>
  A \<^verbatim>\<open>float\<close> is a finite value, an infinity or a NaN. Finite values are kept as
  exact rationals: the rounding of \<^verbatim>\<open>float(s)\<close> to the nearest binary64 value (and
  its overflow to an infinity) is not modelled, so \<open>Fin q\<close> stands for the float nearest
  to \<open>q\<close>, as the literal that denotes \<open>q\<close> does in Python.
\<close>

datatype pyfloat = Fin rat | PInf | NInf | NaN

text \<open>\<^verbatim>\<open>a < b\<close> on floats: false as soon as one side is a NaN.\<close>

fun flt_less :: "pyfloat \<Rightarrow> pyfloat \<Rightarrow> bool" where
  "flt_less NaN b \<longleftrightarrow> False"
| "flt_less a NaN \<longleftrightarrow> False"
| "flt_less (Fin a) (Fin b) \<longleftrightarrow> a < b"
| "flt_less (Fin a) PInf \<longleftrightarrow> True"
| "flt_less (Fin a) NInf \<longleftrightarrow> False"
| "flt_less PInf b \<longleftrightarrow> False"
| "flt_less NInf (Fin b) \<longleftrightarrow> True"
| "flt_less NInf PInf \<longleftrightarrow> True"
| "flt_less NInf NInf \<longleftrightarrow> False"

text \<open>
  The built-in \<^verbatim>\<open>float(s)\<close> on a string, after CPython 3.11: code points outside
  ASCII are first turned into a space (white space) or an ASCII digit (decimal digits of
  any script), the ASCII white space at both ends is dropped, an underscore is accepted
  between two digits, and what is left is a signed \<^verbatim>\<open>inf\<close>, \<^verbatim>\<open>infinity\<close>,
  \<^verbatim>\<open>nan\<close> (in any case) or a decimal number with an optional exponent.
\<close>

definition nd_zeros :: "nat list" where
  "nd_zeros = [48, 1632, 1776, 1984, 2406, 2534, 2662, 2790, 2918, 3046, 3174, 3302, 3430,
     3558, 3664, 3792, 3872, 4160, 4240, 6112, 6160, 6470, 6608, 6784, 6800, 6992, 7088,
     7232, 7248, 42528, 43216, 43264, 43472, 43504, 43600, 44016, 65296, 66720, 68912,
     69734, 69872, 69942, 70096, 70384, 70736, 70864, 71248, 71360, 71472, 71904, 72016,
     72784, 73040, 73120, 92768, 92864, 93008, 120782, 120792, 120802, 120812, 120822,
     123200, 123632, 125264, 130032]"

definition to_decimal :: "nat \<Rightarrow> nat option" where
  "to_decimal c = map_option (\<lambda>z. c - z) (find (\<lambda>z. z \<le> c \<and> c < z + 10) nd_zeros)"

definition to_ascii :: "nat \<Rightarrow> nat" where
  "to_ascii c =
     (if c < 128 then c
      else if py_isspace c then 32
      else (case to_decimal c of Some d \<Rightarrow> 48 + d | None \<Rightarrow> 63))"

definition c_isspace :: "nat \<Rightarrow> bool" where
  "c_isspace c \<longleftrightarrow> (9 \<le> c \<and> c \<le> 13) \<or> c = 32"

definition is_digit :: "nat \<Rightarrow> bool" where
  "is_digit c \<longleftrightarrow> 48 \<le> c \<and> c \<le> 57"

text \<open>
  The underscores are removed; \<open>None\<close> when one of them does not stand between two
  digits. \<open>prev\<close> is the code point before the current one (0 at the start).
\<close>

fun drop_underscores :: "nat \<Rightarrow> pystr \<Rightarrow> pystr option" where
  "drop_underscores prev [] = (if prev = 95 then None else Some [])"
| "drop_underscores prev (c # cs) =
     (if c = 95 then (if is_digit prev then drop_underscores c cs else None)
      else if prev = 95 \<and> \<not> is_digit c then None
      else map_option ((#) c) (drop_underscores c cs))"

definition digits_val :: "pystr \<Rightarrow> nat" where
  "digits_val ds = foldl (\<lambda>a d. 10 * a + (d - 48)) 0 ds"

text \<open>An optional sign: the sign as \<open>True\<close> for minus, and the rest.\<close>

fun take_sign :: "pystr \<Rightarrow> bool \<times> pystr" where
  "take_sign [] = (False, [])"
| "take_sign (c # cs) =
     (if c = 45 then (True, cs) else if c = 43 then (False, cs) else (False, c # cs))"

text \<open>
  The exponent part: nothing, or \<open>e\<close>/\<open>E\<close>, an optional sign and at least one digit,
  up to the end of the text.
\<close>

definition parse_exponent :: "pystr \<Rightarrow> int option" where
  "parse_exponent s =
     (if s = [] then Some 0
      else if hd s = 101 \<or> hd s = 69 then
        (let (neg, ds) = take_sign (tl s) in
         if ds \<noteq> [] \<and> list_all is_digit ds
         then Some (if neg then - int (digits_val ds) else int (digits_val ds))
         else None)
      else None)"

definition scale10 :: "nat \<Rightarrow> int \<Rightarrow> rat" where
  "scale10 m e = (if 0 \<le> e then of_nat m * 10 ^ nat e else of_nat m / 10 ^ nat (- e))"

text \<open>The unsigned decimal number: integer digits, an optional point and fraction digits
  (at least one digit in all), and the exponent.\<close>

definition parse_number :: "pystr \<Rightarrow> rat option" where
  "parse_number s =
     (let ip = takeWhile is_digit s; r1 = dropWhile is_digit s;
          r2 = (if r1 \<noteq> [] \<and> hd r1 = 46 then tl r1 else r1);
          fp = (if r1 \<noteq> [] \<and> hd r1 = 46 then takeWhile is_digit r2 else []);
          r3 = (if r1 \<noteq> [] \<and> hd r1 = 46 then dropWhile is_digit r2 else r1)
      in if ip = [] \<and> fp = [] then None
         else (case parse_exponent r3 of
                 None \<Rightarrow> None
               | Some e \<Rightarrow> Some (scale10 (digits_val (ip @ fp)) (e - int (length fp)))))"

definition ascii_lower :: "pystr \<Rightarrow> pystr" where
  "ascii_lower s = map (\<lambda>c. if 65 \<le> c \<and> c \<le> 90 then c + 32 else c) s"

definition parse_float :: "pystr \<Rightarrow> pyfloat option" where
  "parse_float s =
     (let (neg, body) = take_sign s; low = ascii_lower body in
      if low = cp ''inf'' \<or> low = cp ''infinity'' then Some (if neg then NInf else PInf)
      else if low = cp ''nan'' then Some NaN
      else (case parse_number body of
              None \<Rightarrow> None
            | Some q \<Rightarrow> Some (Fin (if neg then - q else q))))"

text \<open>
  The message of the \<^verbatim>\<open>ValueError\<close> shows \<^verbatim>\<open>repr(s)\<close>; it is written here as
  the text between single quotes, without the escapes of \<^verbatim>\<open>repr\<close>.
\<close>

definition float_error :: "pystr \<Rightarrow> exn" where
  "float_error s = Exn ValueError (cp ''could not convert string to float: '' @ [39] @ s @ [39])"

definition py_float :: "pystr \<Rightarrow> exn + pyfloat" where
  "py_float s =
     (let a = map to_ascii s;
          t = rev (dropWhile c_isspace (rev (dropWhile c_isspace a)))
      in case drop_underscores 0 t of
           None \<Rightarrow> Inl (float_error s)
         | Some u \<Rightarrow> (case parse_float u of
                        None \<Rightarrow> Inl (float_error s)
                      | Some x \<Rightarrow> Inr x))"

section \<open>The price text parser\<close>

text \<open>
  \<^verbatim>\<open>parse_price_pln(s)\<close>: the five \<^verbatim>\<open>replace\<close> calls of the source in their
  order, then \<^verbatim>\<open>float\<close>, whose \<^verbatim>\<open>ValueError\<close> is not caught.
\<close>

definition clean_price :: "pystr \<Rightarrow> pystr" where
  "clean_price s =
     (let cleaned = py_replace_n (cp ''.'') [] 1
                      (py_replace (cp '' '') [] (py_replace [160] (cp '' '') s));
          cleaned = py_replace (cp ''.'') [] (py_replace (cp '' '') [] cleaned)
      in py_replace (cp '','') (cp ''.'') cleaned)"

definition parse_price_pln :: "pystr \<Rightarrow> exn + pyfloat" where
  "parse_price_pln s = py_float (clean_price s)"

text \<open>
  The cleaning as the specification words it, in its three steps: non-breaking spaces
  become ordinary spaces, every space and every dot is dropped, and a comma becomes the
  decimal point.
\<close>

definition spec_clean :: "pystr \<Rightarrow> pystr" where
  "spec_clean s =
     map (\<lambda>c. if c = 44 then 46 else c)
       (filter (\<lambda>c. c \<noteq> 32 \<and> c \<noteq> 46)
         (map (\<lambda>c. if c = 160 then 32 else c) s))"

section \<open>The price extractor\<close>

subsection \<open>The document tree\<close>

text \<open>
  What \<^verbatim>\<open>BeautifulSoup(html, "html.parser")\<close> builds: text nodes, strings that
  \<^verbatim>\<open>get_text\<close> leaves out (comments and the like), and elements with their name,
  their string-valued attributes (each name once), the \<^verbatim>\<open>class\<close> attribute (which
  the library keeps as the list of its tokens, absent when the tag has none) and their
  children. A document is the list of its top-level nodes.
\<close>

datatype node =
    Text pystr
  | Comment pystr
  | Elem pystr "(pystr \<times> pystr) list" "pystr list option" "node list"

fun is_tag :: "pystr \<Rightarrow> node \<Rightarrow> bool" where
  "is_tag n (Elem m as cs ks) \<longleftrightarrow> m = n"
| "is_tag n (Text t) \<longleftrightarrow> False"
| "is_tag n (Comment t) \<longleftrightarrow> False"

text \<open>\<^verbatim>\<open>tag.has_attr(k)\<close> and \<^verbatim>\<open>tag[k]\<close>, as one lookup.\<close>

fun attr :: "node \<Rightarrow> pystr \<Rightarrow> pystr option" where
  "attr (Elem m as cs ks) k = map_of as k"
| "attr (Text t) k = None"
| "attr (Comment t) k = None"

text \<open>\<^verbatim>\<open>tag.get("class", [])\<close>\<close>

fun class_list :: "node \<Rightarrow> pystr list" where
  "class_list (Elem m as cs ks) = (case cs of None \<Rightarrow> [] | Some l \<Rightarrow> l)"
| "class_list (Text t) = []"
| "class_list (Comment t) = []"

text \<open>\<^verbatim>\<open>tag.descendants\<close>: every node below the tag, in document order.\<close>

fun descendants :: "node \<Rightarrow> node list" where
  "descendants (Elem m as cs ks) = concat (map (\<lambda>k. k # descendants k) ks)"
| "descendants (Text t) = []"
| "descendants (Comment t) = []"

definition find_all :: "pystr \<Rightarrow> node list \<Rightarrow> node list" where
  "find_all name doc = filter (is_tag name) (concat (map (\<lambda>k. k # descendants k) doc))"

text \<open>\<^verbatim>\<open>tag.find(...)\<close>: the first descendant that matches, or \<^verbatim>\<open>None\<close>.\<close>

definition find_in :: "node \<Rightarrow> (node \<Rightarrow> bool) \<Rightarrow> node option" where
  "find_in tag P = find P (descendants tag)"

text \<open>
  The keyword \<^verbatim>\<open>class_="price"\<close>: one of the tokens is the text, or the tokens put
  together with spaces are.
\<close>

definition has_class :: "pystr \<Rightarrow> node \<Rightarrow> bool" where
  "has_class c n \<longleftrightarrow> c \<in> set (class_list n) \<or> py_join (cp '' '') (class_list n) = c"

text \<open>
  \<^verbatim>\<open>tag.get_text(sep, strip=True)\<close>: the text nodes below the tag, each stripped, the
  empty ones left out, joined with \<open>sep\<close>.
\<close>

fun stripped_text :: "node \<Rightarrow> pystr list" where
  "stripped_text (Text t) = (if py_strip t = [] then [] else [py_strip t])"
| "stripped_text (Comment t) = []"
| "stripped_text (Elem m as cs ks) = []"

definition get_text :: "pystr \<Rightarrow> node \<Rightarrow> pystr" where
  "get_text sep tag = py_join sep (concat (map stripped_text (descendants tag)))"

subsection \<open>\<^verbatim>\<open>extract_plate_price\<close>\<close>

text \<open>The test of the loop body on one \<^verbatim>\<open>tr\<close>.\<close>

definition row_matches :: "node \<Rightarrow> bool" where
  "row_matches tr \<longleftrightarrow>
     (case attr tr (cp ''data-area'') of
        None \<Rightarrow> False
      | Some v \<Rightarrow>
          py_lower v = cp ''plyta'' \<and>
          py_in (cp ''category'') (py_lower (py_join (cp '' '') (class_list tr))))"

text \<open>The loop over \<^verbatim>\<open>soup.find_all("tr")\<close> with its \<^verbatim>\<open>break\<close>.\<close>

fun first_row :: "node list \<Rightarrow> node option" where
  "first_row [] = None"
| "first_row (tr # trs) = (if row_matches tr then Some tr else first_row trs)"

definition zl :: pystr where
  "zl = [122, 322]"

definition num_part :: "node \<Rightarrow> pystr" where
  "num_part bold = py_strip (py_replace zl [] (py_lower (get_text (cp '' '') bold)))"

text \<open>The test of \<^verbatim>\<open>row.find("td", class_="price")\<close>.\<close>

definition is_price_cell :: "node \<Rightarrow> bool" where
  "is_price_cell n \<longleftrightarrow> is_tag (cp ''td'') n \<and> has_class (cp ''price'') n"

text \<open>What the function does once it holds a row.\<close>

definition price_of_row :: "node \<Rightarrow> exn + pyfloat option" where
  "price_of_row row =
     (case find_in row is_price_cell of
        None \<Rightarrow> Inr None
      | Some price_td \<Rightarrow>
          (case find_in price_td (is_tag (cp ''b'')) of
             None \<Rightarrow> Inr None
           | Some bold \<Rightarrow>
               if get_text [] bold = [] then Inr None
               else (case parse_price_pln (num_part bold) of
                       Inl e \<Rightarrow> Inl e
                     | Inr p \<Rightarrow> Inr (Some p))))"

text \<open>
  The HTML parser is the library's; it is the parameter \<open>soup\<close>, which gives the
  document or the exception the constructor raises.
\<close>

definition extract_plate_price :: "(pystr \<Rightarrow> exn + node list) \<Rightarrow> pystr \<Rightarrow> exn + pyfloat option" where
  "extract_plate_price soup html =
     (case soup html of
        Inl e \<Rightarrow> Inl e
      | Inr doc \<Rightarrow>
          (case first_row (find_all (cp ''tr'') doc) of
             None \<Rightarrow> Inr None
           | Some row \<Rightarrow> price_of_row row))"

section \<open>The page fetcher\<close>

text \<open>
  What one pass of the loop body meets on the network: the warm-up request raises, or
  it returns (whatever its status) and the target request raises, or the target request
  returns a response with its status code and its text.
\<close>

datatype attempt = WarmupRaises exn | TargetRaises exn | Response int pystr

text \<open>Lines 82 to 87: the check of the response.\<close>

definition check_response :: "int \<Rightarrow> pystr \<Rightarrow> exn + pystr" where
  "check_response status body =
     (if 200 \<le> status \<and> status < 300 \<and> body \<noteq> [] \<and> length body > 1000 then Inr body
      else if status = 403 \<or> status = 429 \<or> status \<ge> 500 \<or> length body < 1000
        then Inl (Exn RuntimeError (cp ''Bad HTTP '' @ str_int status @ cp '' or tiny body''))
      else Inl (Exn RuntimeError (cp ''Unexpected HTTP '' @ str_int status)))"

fun run_attempt :: "attempt \<Rightarrow> exn + pystr" where
  "run_attempt (WarmupRaises e) = Inl e"
| "run_attempt (TargetRaises e) = Inl e"
| "run_attempt (Response status body) = check_response status body"

text \<open>\<^verbatim>\<open>f"Fetch failed after retries: {last_err}"\<close>\<close>

definition fetch_failed :: "exn option \<Rightarrow> exn" where
  "fetch_failed last_err =
     Exn RuntimeError (cp ''Fetch failed after retries: '' @
       (case last_err of None \<Rightarrow> cp ''None'' | Some e \<Rightarrow> str_exn e))"

text \<open>The argument of \<^verbatim>\<open>time.sleep\<close>, in seconds.\<close>

definition backoff_seconds :: "int \<Rightarrow> int \<Rightarrow> rat" where
  "backoff_seconds backoff_ms attempt = (of_int backoff_ms / 1000) * of_int (attempt + 1)"

text \<open>
  The \<^verbatim>\<open>for attempt in range(max_retries + 1)\<close> loop from \<open>attempt\<close> on, with the
  value of \<^verbatim>\<open>last_err\<close> and the sleeps made so far; the result is what the function
  returns or raises, and the sleeps. \<^verbatim>\<open>time.sleep\<close> raises a \<^verbatim>\<open>ValueError\<close> on
  a negative argument, inside the handler, so that error leaves the function.
\<close>

function fetch_loop ::
  "(nat \<Rightarrow> attempt) \<Rightarrow> int \<Rightarrow> int \<Rightarrow> int \<Rightarrow> exn option \<Rightarrow> rat list \<Rightarrow> (exn + pystr) \<times> rat list"
where
  "fetch_loop net max_retries backoff_ms attempt last_err slept =
     (if attempt < max_retries + 1 then
        (case run_attempt (net (nat attempt)) of
           Inr body \<Rightarrow> (Inr body, slept)
         | Inl e \<Rightarrow>
             if attempt < max_retries then
               (if backoff_seconds backoff_ms attempt < 0
                then (Inl (Exn ValueError (cp ''sleep length must be non-negative'')), slept)
                else fetch_loop net max_retries backoff_ms (attempt + 1) (Some e)
                       (slept @ [backoff_seconds backoff_ms attempt]))
             else (Inl (fetch_failed (Some e)), slept))
      else (Inl (fetch_failed last_err), slept))"
  by pat_completeness auto
termination
  by (relation "measure (\<lambda>(net, max_retries, backoff_ms, attempt, last_err, slept).
        nat (max_retries + 1 - attempt))") auto

declare fetch_loop.simps [simp del]

text \<open>
  \<open>net url i\<close> is what attempt \<open>i\<close> (from 0) meets when it asks for \<open>url\<close>.
\<close>

definition fetch_html_with_warm ::
  "(pystr \<Rightarrow> nat \<Rightarrow> attempt) \<Rightarrow> pystr \<Rightarrow> int \<Rightarrow> int \<Rightarrow> (exn + pystr) \<times> rat list" where
  "fetch_html_with_warm net url max_retries backoff_ms =
     fetch_loop (net url) max_retries backoff_ms 0 None []"

section \<open>The state file, the log and the notifier\<close>

subsection \<open>JSON values and the state file\<close>

text \<open>
  What \<^verbatim>\<open>json.load\<close> can return. A dictionary is the list of its items in their
  order; \<^verbatim>\<open>json.load\<close> builds it with each key once.
\<close>

datatype json =
    JNull
  | JBool bool
  | JInt int
  | JFloat pyfloat
  | JStr pystr
  | JArr "json list"
  | JObj "(pystr \<times> json) list"

type_synonym dict = "(pystr \<times> json) list"

text \<open>
  The state file as a run finds it: no file at the path, a file that cannot be opened or
  read, a file whose text \<^verbatim>\<open>json.load\<close> rejects, or a file that holds a JSON value.
\<close>

datatype state_file = Missing | Unreadable | Malformed | Holds json

definition last_below_key :: pystr where
  "last_below_key = cp ''last_below''"

definition load_state :: "state_file \<Rightarrow> json" where
  "load_state f =
     (case f of
        Missing \<Rightarrow> JObj [(last_below_key, JBool False)]
      | Unreadable \<Rightarrow> JObj [(last_below_key, JBool False)]
      | Malformed \<Rightarrow> JObj [(last_below_key, JBool False)]
      | Holds v \<Rightarrow> v)"

text \<open>The name \<^verbatim>\<open>type(v).__name__\<close> of a loaded value.\<close>

fun type_name :: "json \<Rightarrow> pystr" where
  "type_name JNull = cp ''NoneType''"
| "type_name (JBool b) = cp ''bool''"
| "type_name (JInt i) = cp ''int''"
| "type_name (JFloat x) = cp ''float''"
| "type_name (JStr t) = cp ''str''"
| "type_name (JArr l) = cp ''list''"
| "type_name (JObj d) = cp ''dict''"

text \<open>
  \<^verbatim>\<open>state.get("last_below", False)\<close>: only a dictionary has the method; the result
  comes with the dictionary itself.
\<close>

definition state_get :: "json \<Rightarrow> exn + dict \<times> json" where
  "state_get state =
     (case state of
        JObj d \<Rightarrow> Inr (d, case map_of d last_below_key of None \<Rightarrow> JBool False | Some v \<Rightarrow> v)
      | _ \<Rightarrow> Inl (Exn AttributeError
                 ([39] @ type_name state @ [39] @ cp '' object has no attribute '' @ [39] @
                  cp ''get'' @ [39])))"

text \<open>\<^verbatim>\<open>bool(v)\<close>\<close>

fun py_bool :: "json \<Rightarrow> bool" where
  "py_bool JNull \<longleftrightarrow> False"
| "py_bool (JBool b) \<longleftrightarrow> b"
| "py_bool (JInt i) \<longleftrightarrow> i \<noteq> 0"
| "py_bool (JFloat x) \<longleftrightarrow> x \<noteq> Fin 0"
| "py_bool (JStr t) \<longleftrightarrow> t \<noteq> []"
| "py_bool (JArr l) \<longleftrightarrow> l \<noteq> []"
| "py_bool (JObj d) \<longleftrightarrow> d \<noteq> []"

text \<open>\<^verbatim>\<open>state[k] = v\<close>\<close>

fun dict_set :: "dict \<Rightarrow> pystr \<Rightarrow> json \<Rightarrow> dict" where
  "dict_set [] k v = [(k, v)]"
| "dict_set ((k', v') # d) k v = (if k' = k then (k, v) # d else (k', v') # dict_set d k v)"

text \<open>
  The latch a later run reads from a file: \<^verbatim>\<open>load_state\<close>, then lines 165 and 166.
\<close>

definition read_latch :: "state_file \<Rightarrow> exn + bool" where
  "read_latch f =
     (case state_get (load_state f) of Inl e \<Rightarrow> Inl e | Inr (d, v) \<Rightarrow> Inr (py_bool v))"

subsection \<open>A run's surroundings and effects\<close>

text \<open>
  One row of the log. The columns are kept as values: the formatting of the time and of
  the price is not modelled.
\<close>

record obs =
  row_time :: pystr
  row_price :: "pyfloat option"
  row_status :: pystr
  row_note :: pystr

text \<open>A printed line; \<open>WithPrice s p\<close> is \<^verbatim>\<open>f"{s}: {p:.2f}"\<close>.\<close>

datatype out_line = Plain pystr | WithPrice pystr pyfloat

record config =
  url :: pystr
  threshold :: pyfloat
  smtp_host :: pystr
  smtp_port :: int
  smtp_user :: "pystr option"
  smtp_pass :: "pystr option"

text \<open>
  What the world answers during one run: the clock, the state file, the network, the
  HTML parser, the mail server (the exception the SMTP conversation raises, if any), and
  for each write of the log and of the state file whether it raises. A run writes the log
  at most once and the state file at most once inside the \<^verbatim>\<open>try\<close> block, and at most
  once each in the handler. A write of the state file that raises leaves the file in the
  state given with the exception.
\<close>

record env =
  now :: pystr
  state_file :: state_file
  net :: "pystr \<Rightarrow> nat \<Rightarrow> attempt"
  html_parser :: "pystr \<Rightarrow> exn + node list"
  smtp :: "exn option"
  log_try :: "exn option"
  save_try :: "(exn \<times> state_file) option"
  log_handler :: "exn option"
  save_handler :: "(exn \<times> state_file) option"

text \<open>
  What a run has done so far: the state file, the rows appended to the log, the lines
  printed on standard output and on standard error, the calls of
  \<^verbatim>\<open>send_email_alert\<close> (the price, and the exception when the call raised), and the
  sleeps of the fetcher.
\<close>

record world =
  stored :: state_file
  rows :: "obs list"
  stdout :: "out_line list"
  stderr :: "out_line list"
  mails :: "(pyfloat \<times> exn option) list"
  sleeps :: "rat list"

definition log_row :: "exn option \<Rightarrow> pystr \<Rightarrow> pyfloat option \<Rightarrow> pystr \<Rightarrow> pystr \<Rightarrow> world \<Rightarrow> exn option \<times> world" where
  "log_row fails ts p st nt w =
     (case fails of
        Some e \<Rightarrow> (Some e, w)
      | None \<Rightarrow> (None, w\<lparr>rows := rows w @ [\<lparr>row_time = ts, row_price = p, row_status = st, row_note = nt\<rparr>]\<rparr>))"

definition save_state :: "(exn \<times> state_file) option \<Rightarrow> dict \<Rightarrow> world \<Rightarrow> exn option \<times> world" where
  "save_state fails state w =
     (case fails of
        Some (e, left) \<Rightarrow> (Some e, w\<lparr>stored := left\<rparr>)
      | None \<Rightarrow> (None, w\<lparr>stored := Holds (JObj state)\<rparr>))"

subsection \<open>\<^verbatim>\<open>send_email_alert\<close>\<close>

definition truthy :: "pystr option \<Rightarrow> bool" where
  "truthy v \<longleftrightarrow> (case v of None \<Rightarrow> False | Some t \<Rightarrow> t \<noteq> [])"

definition credentials_missing :: exn where
  "credentials_missing =
     Exn RuntimeError (cp ''SMTP credentials missing. Set SMTP_USER and SMTP_PASS as repo secrets.'')"

text \<open>
  The check of line 137, then the SMTP conversation, whose outcome the world gives. The
  text of the message is not modelled.
\<close>

definition send_email_alert :: "config \<Rightarrow> exn option \<Rightarrow> pyfloat \<Rightarrow> exn option" where
  "send_email_alert cfg conversation current_price =
     (if \<not> (smtp_host cfg \<noteq> [] \<and> smtp_port cfg \<noteq> 0 \<and> truthy (smtp_user cfg) \<and> truthy (smtp_pass cfg))
      then Some credentials_missing
      else conversation)"

section \<open>The orchestrator\<close>

definition BELOW :: pystr where "BELOW = cp ''BELOW''"
definition ABOVE :: pystr where "ABOVE = cp ''ABOVE''"
definition NO_MATCH :: pystr where "NO_MATCH = cp ''NO_MATCH''"
definition ERROR :: pystr where "ERROR = cp ''ERROR''"

definition no_match_note :: pystr where
  "no_match_note = cp ''Nie znaleziono wiersza P'' @ [322] @ cp ''yta/ceny''"

definition latch_reset_note :: pystr where
  "latch_reset_note = cp ''Latch reset (price went above threshold)''"

text \<open>Line 177.\<close>

definition status_of :: "config \<Rightarrow> pyfloat \<Rightarrow> pystr" where
  "status_of cfg p = (if flt_less p (threshold cfg) then BELOW else ABOVE)"

text \<open>
  Lines 179 to 193: the note, the dictionary as the branch leaves it, and the world with
  the call of \<^verbatim>\<open>send_email_alert\<close> if there was one.
\<close>

definition decide :: "config \<Rightarrow> env \<Rightarrow> bool \<Rightarrow> dict \<Rightarrow> pyfloat \<Rightarrow> world \<Rightarrow> pystr \<times> dict \<times> world" where
  "decide cfg ev last_below state p w =
     (if status_of cfg p = BELOW \<and> \<not> last_below then
        (case send_email_alert cfg (smtp ev) p of
           None \<Rightarrow>
             (cp ''Alert sent'', dict_set state last_below_key (JBool True),
              w\<lparr>mails := mails w @ [(p, None)]\<rparr>)
         | Some e \<Rightarrow>
             (cp ''Email error: '' @ str_exn e, dict_set state last_below_key (JBool False),
              w\<lparr>mails := mails w @ [(p, Some e)]\<rparr>))
      else if status_of cfg p = ABOVE then
        (if last_below then latch_reset_note else [],
         dict_set state last_below_key (JBool False), w)
      else ([], state, w))"

text \<open>
  Lines 169 to 198, the body of the \<^verbatim>\<open>try\<close>: the exception that leaves it (\<open>None\<close>
  when it returns 0), the dictionary \<^verbatim>\<open>state\<close> as it is then, and the world.
\<close>

definition try_body :: "config \<Rightarrow> env \<Rightarrow> bool \<Rightarrow> dict \<Rightarrow> world \<Rightarrow> exn option \<times> dict \<times> world" where
  "try_body cfg ev last_below state w =
     (case fetch_html_with_warm (net ev) (url cfg) 3 800 of
        (Inl e, sl) \<Rightarrow> (Some e, state, w\<lparr>sleeps := sl\<rparr>)
      | (Inr html, sl) \<Rightarrow>
          (case extract_plate_price (html_parser ev) html of
             Inl e \<Rightarrow> (Some e, state, w\<lparr>sleeps := sl\<rparr>)
           | Inr None \<Rightarrow>
               (case log_row (log_try ev) (now ev) None NO_MATCH no_match_note (w\<lparr>sleeps := sl\<rparr>) of
                  (Some e, w1) \<Rightarrow> (Some e, state, w1)
                | (None, w1) \<Rightarrow>
                    (case save_state (save_try ev) state (w1\<lparr>stdout := stdout w1 @ [Plain NO_MATCH]\<rparr>) of
                       (Some e, w2) \<Rightarrow> (Some e, state, w2)
                     | (None, w2) \<Rightarrow> (None, state, w2)))
           | Inr (Some p) \<Rightarrow>
               (case decide cfg ev last_below state p (w\<lparr>sleeps := sl\<rparr>) of
                  (nt, state', w1) \<Rightarrow>
                    (case log_row (log_try ev) (now ev) (Some p) (status_of cfg p) nt w1 of
                       (Some e, w2) \<Rightarrow> (Some e, state', w2)
                     | (None, w2) \<Rightarrow>
                         (case save_state (save_try ev) state' w2 of
                            (Some e, w3) \<Rightarrow> (Some e, state', w3)
                          | (None, w3) \<Rightarrow>
                              (None, state',
                               w3\<lparr>stdout := stdout w3 @ [WithPrice (status_of cfg p) p]\<rparr>))))))"

text \<open>
  Lines 200 to 205, the handler: the exit code it returns, or the exception that leaves
  it (and the program).
\<close>

definition handler :: "env \<Rightarrow> exn \<Rightarrow> dict \<Rightarrow> world \<Rightarrow> (exn + int) \<times> world" where
  "handler ev e state w =
     (case log_row (log_handler ev) (now ev) None ERROR (str_exn e) w of
        (Some e', w1) \<Rightarrow> (Inl e', w1)
      | (None, w1) \<Rightarrow>
          (case save_state (save_handler ev) state
                  (w1\<lparr>stderr := stderr w1 @ [Plain (cp ''ERROR: '' @ str_exn e)]\<rparr>) of
             (Some e', w2) \<Rightarrow> (Inl e', w2)
           | (None, w2) \<Rightarrow> (Inr 0, w2)))"

definition start :: "env \<Rightarrow> world" where
  "start ev = \<lparr>stored = state_file ev, rows = [], stdout = [], stderr = [], mails = [], sleeps = []\<rparr>"

text \<open>
  \<^verbatim>\<open>main()\<close>: what it returns, or the exception that leaves it, and the world after
  it.
\<close>

definition main :: "config \<Rightarrow> env \<Rightarrow> (exn + int) \<times> world" where
  "main cfg ev =
     (case state_get (load_state (state_file ev)) of
        Inl e \<Rightarrow> (Inl e, start ev)
      | Inr (state, v) \<Rightarrow>
          (case try_body cfg ev (py_bool v) state (start ev) of
             (None, state', w) \<Rightarrow> (Inr 0, w)
           | (Some e, state', w) \<Rightarrow> handler ev e state' w))"

text \<open>
  \<^verbatim>\<open>sys.exit(main())\<close>: the exit status of the process, 1 when an exception leaves
  \<^verbatim>\<open>main\<close>.
\<close>

definition exit_code :: "(exn + int) \<times> world \<Rightarrow> int" where
  "exit_code r = (case fst r of Inl e \<Rightarrow> 1 | Inr c \<Rightarrow> c)"

section \<open>Worked inputs\<close>

text \<open>
  A page of 1001 characters, a document whose only row is the one of the specification's
  example, a configuration with the default threshold and mail credentials, and a world
  in which the site answers with that page and every write succeeds.
\<close>

definition page :: pystr where
  "page = replicate 1001 120"

definition bold_199 :: node where
  "bold_199 = Elem (cp ''b'') [] None [Text (cp ''199,00 z'' @ [322])]"

definition cell_199 :: node where
  "cell_199 = Elem (cp ''td'') [] (Some [cp ''price'']) [bold_199]"

definition row_199 :: node where
  "row_199 =
     Elem (cp ''tr'') [(cp ''data-area'', cp ''plyta'')] (Some [cp ''category'', cp ''foo''])
       [cell_199]"

definition doc_199 :: "node list" where
  "doc_199 = [Elem (cp ''table'') [] None [row_199]]"

definition cfg0 :: config where
  "cfg0 = \<lparr>url = cp ''https://www.alebilet.pl/'', threshold = Fin 230,
            smtp_host = cp ''smtp.gmail.com'', smtp_port = 587,
            smtp_user = Some (cp ''user''), smtp_pass = Some (cp ''pass'')\<rparr>"

definition calm :: "state_file \<Rightarrow> env" where
  "calm f = \<lparr>now = cp ''2025-10-01 12:00:00'', state_file = f,
             net = (\<lambda>u i. Response 200 page), html_parser = (\<lambda>h. Inr doc_199),
             smtp = None, log_try = None, save_try = None,
             log_handler = None, save_handler = None\<rparr>"

definition latch :: "bool \<Rightarrow> state_file" where
  "latch b = Holds (JObj [(last_below_key, JBool b)])"

text \<open>The same world with a clear latch, where the write of the log row in the
  \<^verbatim>\<open>try\<close> block raises.\<close>

definition log_hiccup :: env where
  "log_hiccup = (calm (latch False))\<lparr>log_try := Some (Exn OSError (cp ''No space left on device''))\<rparr>"

text \<open>A site that answers 503 twice and then serves the page.\<close>

definition flaky :: "pystr \<Rightarrow> nat \<Rightarrow> attempt" where
  "flaky u i = (if i < 2 then Response 503 [] else Response 200 page)"

text \<open>
  A matching row (in upper case) around a price cell with the bold text \<open>t\<close>, and a
  row for another area.
\<close>

definition priced_row :: "pystr \<Rightarrow> node" where
  "priced_row t =
     Elem (cp ''tr'') [(cp ''data-area'', cp ''PLYTA'')] (Some [cp ''Category''])
       [Elem (cp ''td'') [] (Some [cp ''price'']) [Elem (cp ''b'') [] None [Text t]]]"

definition stand_row :: node where
  "stand_row =
     Elem (cp ''tr'') [(cp ''data-area'', cp ''trybuna'')] (Some [cp ''category''])
       [cell_199]"

text \<open>
  A set latch, a site that answers 403, and a log that cannot be written, neither in
  the \<^verbatim>\<open>try\<close> block nor in the handler.
\<close>

definition no_log :: env where
  "no_log = (calm (latch True))
     \<lparr>net := \<lambda>u i. Response 403 [],
      log_try := Some (Exn OSError (cp ''[Errno 2] No such file or directory'')),
      log_handler := Some (Exn OSError (cp ''[Errno 2] No such file or directory''))\<rparr>"

text \<open>
  Worlds in which a write fails: the log cannot be written in the \<^verbatim>\<open>try\<close> block nor
  in the handler; the state file (with a set latch) cannot be written and stays as it is;
  the mail server refuses the connection and the first write of the log row raises.
\<close>

definition unlogged :: "state_file \<Rightarrow> env" where
  "unlogged f = (calm f)
     \<lparr>log_try := Some (Exn OSError (cp ''[Errno 2] No such file or directory'')),
      log_handler := Some (Exn OSError (cp ''[Errno 2] No such file or directory''))\<rparr>"

definition unsaved :: env where
  "unsaved = (calm (latch True))
     \<lparr>save_try := Some (Exn OSError (cp ''[Errno 13] Permission denied''), latch True),
      save_handler := Some (Exn OSError (cp ''[Errno 13] Permission denied''), latch True)\<rparr>"

definition mail_and_log_down :: env where
  "mail_and_log_down = log_hiccup\<lparr>smtp := Some (Exn OSError (cp ''Connection refused''))\<rparr>"

section \<open>Auxiliary facts\<close>

lemma status_distinct: "BELOW \<noteq> ABOVE"
  by (simp add: BELOW_def ABOVE_def cp_def)

lemma flt_less_irrefl: "\<not> flt_less x x"
  by (cases x) simp_all

lemma map_of_dict_set: "map_of (dict_set d k v) k = Some v"
  by (induction d k v rule: dict_set.induct) simp_all

lemma read_latch_set: "read_latch (Holds (JObj (dict_set d last_below_key (JBool b)))) = Inr b"
  by (simp add: read_latch_def load_state_def state_get_def map_of_dict_set)

lemma state_get_obj:
  "state_get s = Inr (d, v) \<Longrightarrow> s = JObj d \<and> v = (case map_of d last_below_key of None \<Rightarrow> JBool False | Some x \<Rightarrow> x)"
  by (cases s) (auto simp add: state_get_def)

lemma read_latch_kept:
  "state_get (load_state f) = Inr (d, v) \<Longrightarrow> read_latch (Holds (JObj d)) = Inr (py_bool v)"
  by (drule state_get_obj) (simp add: read_latch_def load_state_def state_get_def)

lemma read_latch_Inr:
  "read_latch f = Inr lb \<Longrightarrow> \<exists>d v. state_get (load_state f) = Inr (d, v) \<and> py_bool v = lb"
  by (auto simp add: read_latch_def split: sum.splits)

lemma fetch_page: "fetch_html_with_warm (\<lambda>u i. Response 200 page) u 3 800 = (Inr page, [])"
  by (simp add: fetch_html_with_warm_def fetch_loop.simps check_response_def page_def)

lemma py_replace_single:
  "py_replace [a] new s = concat (map (\<lambda>c. if c = a then new else [c]) s)"
proof (induction s)
  case Nil
  show ?case by (subst py_replace.simps) simp
next
  case (Cons c cs)
  show ?case by (subst py_replace.simps) (simp add: Cons.IH)
qed

lemma py_replace_drop: "py_replace [a] [] s = filter (\<lambda>c. c \<noteq> a) s"
  by (induction s) (simp_all add: py_replace_single)

lemma py_replace_subst: "py_replace [a] [b] s = map (\<lambda>c. if c = a then b else c) s"
  by (induction s) (simp_all add: py_replace_single)

lemma py_replace_n_zero: "py_replace_n old new 0 s = s"
  by (subst py_replace_n.simps) simp

lemma py_replace_n_first: "py_replace_n [a] [] (Suc 0) s = remove1 a s"
proof (induction s)
  case Nil
  show ?case by (subst py_replace_n.simps) simp
next
  case (Cons c cs)
  show ?case by (subst py_replace_n.simps) (auto simp add: Cons.IH py_replace_n_zero)
qed

lemma filter_remove1_out: "\<not> P a \<Longrightarrow> filter P (remove1 a xs) = filter P xs"
  by (induction xs) auto

lemma cp_literals: "cp ''.'' = [46]" "cp '' '' = [32]" "cp '','' = [44]"
  by (simp_all add: cp_def)

lemma clean_price_spec: "clean_price s = spec_clean s"
proof -
  let ?nb = "map (\<lambda>c. if c = 160 then 32 else c) s"
  have "clean_price s =
      map (\<lambda>c. if c = 44 then 46 else c)
        (filter (\<lambda>c. c \<noteq> 46) (filter (\<lambda>c. c \<noteq> 32)
          (remove1 46 (filter (\<lambda>c. c \<noteq> 32) ?nb))))"
    by (simp add: clean_price_def cp_literals py_replace_drop py_replace_subst
        py_replace_n_first)
  also have "\<dots> = map (\<lambda>c. if c = 44 then 46 else c)
        (filter (\<lambda>c. c \<noteq> 32 \<and> c \<noteq> 46) (filter (\<lambda>c. c \<noteq> 32) ?nb))"
    by (simp add: filter_remove1_out)
  also have "\<dots> = spec_clean s"
    by (simp add: spec_clean_def)
  finally show ?thesis .
qed

lemmas float_eval = py_float_def to_ascii_def c_isspace_def is_digit_def parse_float_def
  parse_number_def parse_exponent_def digits_val_def scale10_def ascii_lower_def Let_def
  cp_def float_error_def

lemmas price_eval = parse_price_pln_def clean_price_spec spec_clean_def float_eval

lemma row_199_matches: "row_matches row_199"
  by (simp add: row_matches_def row_199_def cp_def py_lower_def lower_cp_def)

lemma bold_199_text: "get_text sep bold_199 = cp ''199,00 z'' @ [322]"
  by (simp add: bold_199_def get_text_def py_strip_def py_isspace_def cp_def)

lemma num_part_199: "num_part bold_199 = cp ''199,00''"
  by (simp add: num_part_def bold_199_text)
     (simp add: cp_def py_lower_def lower_cp_def zl_def py_replace.simps py_strip_def py_isspace_def)

lemma parse_199: "parse_price_pln (cp ''199,00'') = Inr (Fin 199)"
  by (simp add: price_eval)

lemma cell_199_price: "price_of_row (Elem nm ats cls [cell_199]) = Inr (Some (Fin 199))"
proof -
  have "is_price_cell cell_199"
    by (simp add: is_price_cell_def cell_199_def has_class_def)
  then have "find_in (Elem nm ats cls [cell_199]) is_price_cell = Some cell_199"
    by (simp add: find_in_def)
  moreover have "find_in cell_199 (is_tag (cp ''b'')) = Some bold_199"
    by (simp add: find_in_def cell_199_def bold_199_def)
  moreover have "cp ''199,00 z'' @ [322] \<noteq> []"
    by (simp add: cp_def)
  ultimately show ?thesis
    by (simp add: price_of_row_def bold_199_text num_part_199 parse_199)
qed

lemma price_of_row_199: "price_of_row row_199 = Inr (Some (Fin 199))"
  by (simp add: row_199_def cell_199_price)

lemma find_all_doc_199: "find_all (cp ''tr'') doc_199 = [row_199]"
proof -
  have "cp ''table'' \<noteq> cp ''tr''" "cp ''td'' \<noteq> cp ''tr''" "cp ''b'' \<noteq> cp ''tr''"
    by (simp_all add: cp_def)
  then show ?thesis
    by (simp add: find_all_def doc_199_def row_199_def cell_199_def bold_199_def)
qed

lemma extract_199: "extract_plate_price (\<lambda>h. Inr doc_199) h = Inr (Some (Fin 199))"
  by (simp add: extract_plate_price_def find_all_doc_199 row_199_matches price_of_row_199)

lemma status_cases: "status_of cfg p = BELOW \<or> status_of cfg p = ABOVE"
  by (simp add: status_of_def)

lemma status_below_iff: "status_of cfg p = BELOW \<longleftrightarrow> flt_less p (threshold cfg)"
  by (simp add: status_of_def status_distinct [symmetric])

lemma status_above_iff: "status_of cfg p = ABOVE \<longleftrightarrow> \<not> flt_less p (threshold cfg)"
  by (simp add: status_of_def status_distinct)

lemma decide_above:
  "status_of cfg p = ABOVE \<Longrightarrow>
   decide cfg ev lb st p w =
     (if lb then latch_reset_note else [], dict_set st last_below_key (JBool False), w)"
  by (simp add: decide_def status_distinct [symmetric])




lemma try_body_priced:
  assumes "fetch_html_with_warm (net ev) (url cfg) 3 800 = (Inr html, sl)"
    and "extract_plate_price (html_parser ev) html = Inr (Some p)"
    and "log_try ev = None" and "save_try ev = None"
    and "decide cfg ev lb st p (w\<lparr>sleeps := sl\<rparr>) = (nt, st', w1)"
  shows "try_body cfg ev lb st w =
     (None, st',
      w1\<lparr>rows := rows w1 @ [\<lparr>row_time = now ev, row_price = Some p,
                                row_status = status_of cfg p, row_note = nt\<rparr>],
         stored := Holds (JObj st'),
         stdout := stdout w1 @ [WithPrice (status_of cfg p) p]\<rparr>)"
  using assms by (simp add: try_body_def log_row_def save_state_def)

lemma main_priced:
  assumes "state_get (load_state (state_file ev)) = Inr (st, v)"
    and "fetch_html_with_warm (net ev) (url cfg) 3 800 = (Inr html, sl)"
    and "extract_plate_price (html_parser ev) html = Inr (Some p)"
    and "log_try ev = None" and "save_try ev = None"
    and "decide cfg ev (py_bool v) st p ((start ev)\<lparr>sleeps := sl\<rparr>) = (nt, st', w1)"
  shows "main cfg ev =
     (Inr 0,
      w1\<lparr>rows := rows w1 @ [\<lparr>row_time = now ev, row_price = Some p,
                                row_status = status_of cfg p, row_note = nt\<rparr>],
         stored := Holds (JObj st'),
         stdout := stdout w1 @ [WithPrice (status_of cfg p) p]\<rparr>)"
  using assms(1) try_body_priced [OF assms(2-6)] by (simp add: main_def)

lemma decide_stderr:
  "decide cfg ev lb st p w = (nt, st', w') \<Longrightarrow>
   stderr w' = stderr w \<and> rows w' = rows w \<and> stored w' = stored w"
  by (auto simp add: decide_def split: if_splits option.splits)

lemma try_body_stderr:
  "try_body cfg ev lb st w = (x, st', w') \<Longrightarrow> stderr w' = stderr w"
  by (auto simp add: try_body_def log_row_def save_state_def
      split: sum.splits option.splits prod.splits dest: decide_stderr)

lemma try_body_returned:
  "try_body cfg ev lb st w = (None, st', w') \<Longrightarrow> stored w' = Holds (JObj st')"
  by (auto simp add: try_body_def log_row_def save_state_def
      split: sum.splits option.splits prod.splits)

lemma handler_returned:
  "handler ev e st w = (Inr c, w') \<Longrightarrow> c = 0 \<and> stored w' = Holds (JObj st)"
  by (auto simp add: handler_def log_row_def save_state_def split: option.splits prod.splits)

lemma handler_quiet:
  "log_handler ev = None \<Longrightarrow> save_handler ev = None \<Longrightarrow>
   handler ev e st w =
     (Inr 0, w\<lparr>rows := rows w @ [\<lparr>row_time = now ev, row_price = None, row_status = ERROR,
                                    row_note = str_exn e\<rparr>],
               stderr := stderr w @ [Plain (cp ''ERROR: '' @ str_exn e)],
               stored := Holds (JObj st)\<rparr>)"
  by (simp add: handler_def log_row_def save_state_def)

lemma main_returned:
  assumes "state_get (load_state (state_file ev)) = Inr (st, v)"
    and "try_body cfg ev (py_bool v) st (start ev) = (x, st', w)"
    and "fst (main cfg ev) = Inr c"
  shows "c = 0 \<and> stored (snd (main cfg ev)) = Holds (JObj st')"
proof (cases x)
  case None
  with assms show ?thesis by (simp add: main_def try_body_returned)
next
  case (Some e)
  with assms show ?thesis
    by (cases "handler ev e st' w") (auto simp add: main_def dest: handler_returned)
qed

text \<open>Without a price the body of the try leaves the dictionary and the mail alone.\<close>

lemma try_body_no_price:
  assumes "fetch_html_with_warm (net ev) (url cfg) 3 800 = (r, sl)"
    and "\<forall>html p. r = Inr html \<longrightarrow> extract_plate_price (html_parser ev) html \<noteq> Inr (Some p)"
    and "try_body cfg ev lb st w = (x, st', w')"
  shows "st' = st \<and> mails w' = mails w"
  using assms
  by (auto simp add: try_body_def log_row_def save_state_def
      split: sum.splits option.splits prod.splits)

lemma calm_fields:
  "state_file (calm f) = f" "now (calm f) = cp ''2025-10-01 12:00:00''"
  "net (calm f) = (\<lambda>u i. Response 200 page)" "html_parser (calm f) = (\<lambda>h. Inr doc_199)"
  "smtp (calm f) = None" "log_try (calm f) = None" "save_try (calm f) = None"
  "log_handler (calm f) = None" "save_handler (calm f) = None"
  by (simp_all add: calm_def)

lemma read_latch_latch: "read_latch (latch b) = Inr b"
  by (simp add: latch_def read_latch_def load_state_def state_get_def)

lemma send_cfg0: "send_email_alert cfg0 c p = c"
  by (simp add: send_email_alert_def cfg0_def truthy_def cp_def)


lemma try_body_no_price_rows:
  assumes "fetch_html_with_warm (net ev) (url cfg) 3 800 = (r, sl)"
    and "\<forall>html p. r = Inr html \<longrightarrow> extract_plate_price (html_parser ev) html \<noteq> Inr (Some p)"
    and "try_body cfg ev lb st w = (None, st', w')"
  shows "rows w' = rows w @ [\<lparr>row_time = now ev, row_price = None, row_status = NO_MATCH,
                               row_note = no_match_note\<rparr>]"
  using assms
  by (auto simp add: try_body_def log_row_def save_state_def
      split: sum.splits option.splits prod.splits)

lemma handler_rows:
  "handler ev e st w = (Inr c, w') \<Longrightarrow>
   rows w' = rows w @ [\<lparr>row_time = now ev, row_price = None, row_status = ERROR,
                         row_note = str_exn e\<rparr>] \<and>
   mails w' = mails w \<and>
   stderr w' = stderr w @ [Plain (cp ''ERROR: '' @ str_exn e)]"
  by (auto simp add: handler_def log_row_def save_state_def split: option.splits prod.splits)

lemma fetch_403:
  "fetch_html_with_warm (\<lambda>u i. Response 403 []) u 3 800 =
     (Inl (fetch_failed (Some (Exn RuntimeError (cp ''Bad HTTP 403 or tiny body'')))),
      [4 / 5, 8 / 5, 12 / 5])"
  by (simp add: fetch_html_with_warm_def fetch_loop.simps check_response_def
      backoff_seconds_def str_int_def digits10.simps cp_def)

lemma try_body_fetch_failed:
  "fetch_html_with_warm (net ev) (url cfg) 3 800 = (Inl e, sl) \<Longrightarrow>
   try_body cfg ev lb st w = (Some e, st, w\<lparr>sleeps := sl\<rparr>)"
  by (simp add: try_body_def)

lemma try_body_extract_failed:
  "fetch_html_with_warm (net ev) (url cfg) 3 800 = (Inr html, sl) \<Longrightarrow>
   extract_plate_price (html_parser ev) html = Inl e \<Longrightarrow>
   try_body cfg ev lb st w = (Some e, st, w\<lparr>sleeps := sl\<rparr>)"
  by (simp add: try_body_def)

lemma py_float_error: "py_float t = Inl e \<Longrightarrow> e = float_error t"
  by (auto simp add: py_float_def Let_def split: option.splits)

lemma backoff_nonneg: "0 \<le> b \<Longrightarrow> 0 \<le> a \<Longrightarrow> \<not> backoff_seconds b a < 0"
  by (simp add: backoff_seconds_def not_less)

lemma fetch_loop_all_fail:
  assumes "0 \<le> b" and "0 \<le> a" and "a \<le> m"
    and "\<forall>i. a \<le> i \<and> i \<le> m \<longrightarrow> isl (run_attempt (web (nat i)))"
  shows "fetch_loop web m b a le sl =
     (Inl (fetch_failed (Some (projl (run_attempt (web (nat m)))))),
      sl @ map (backoff_seconds b) [a..m - 1])"
  using assms
proof (induction web m b a le sl rule: fetch_loop.induct)
  case (1 web m b a le sl)
  from "1.prems" obtain e where e: "run_attempt (web (nat a)) = Inl e"
    by (cases "run_attempt (web (nat a))") auto
  show ?case
  proof (cases "a < m")
    case True
    have "fetch_loop web m b (a + 1) (Some e) (sl @ [backoff_seconds b a]) =
      (Inl (fetch_failed (Some (projl (run_attempt (web (nat m)))))),
       (sl @ [backoff_seconds b a]) @ map (backoff_seconds b) [a + 1..m - 1])"
      using "1.prems" True e backoff_nonneg [of b a]
      by (intro "1.IH") auto
    moreover have "[a..m - 1] = a # [a + 1..m - 1]"
      using True by (simp add: upto_rec1)
    ultimately show ?thesis
      using True e "1.prems" backoff_nonneg [of b a]
      by (subst fetch_loop.simps) simp
  next
    case False
    with "1.prems" have "a = m" by simp
    then show ?thesis
      using e by (subst fetch_loop.simps) simp
  qed
qed

lemma fetch_loop_first_ok:
  assumes "0 \<le> b" and "0 \<le> a" and "a \<le> k" and "k \<le> m"
    and "\<forall>i. a \<le> i \<and> i < k \<longrightarrow> isl (run_attempt (web (nat i)))"
    and "run_attempt (web (nat k)) = Inr body"
  shows "fetch_loop web m b a le sl = (Inr body, sl @ map (backoff_seconds b) [a..k - 1])"
  using assms
proof (induction web m b a le sl rule: fetch_loop.induct)
  case (1 web m b a le sl)
  show ?case
  proof (cases "a < k")
    case True
    with "1.prems" obtain e where e: "run_attempt (web (nat a)) = Inl e"
      by (cases "run_attempt (web (nat a))") auto
    have "fetch_loop web m b (a + 1) (Some e) (sl @ [backoff_seconds b a]) =
      (Inr body, (sl @ [backoff_seconds b a]) @ map (backoff_seconds b) [a + 1..k - 1])"
      using "1.prems" True e backoff_nonneg [of b a]
      by (intro "1.IH") auto
    moreover have "[a..k - 1] = a # [a + 1..k - 1]"
      using True by (simp add: upto_rec1)
    ultimately show ?thesis
      using True e "1.prems" backoff_nonneg [of b a]
      by (subst fetch_loop.simps) simp
  next
    case False
    with "1.prems" have "a = k" by simp
    then show ?thesis
      using "1.prems" by (subst fetch_loop.simps) simp
  qed
qed

lemma run_attempt_ok_iff:
  "run_attempt a = Inr body \<longleftrightarrow>
     (\<exists>status. a = Response status body \<and> 200 \<le> status \<and> status < 300 \<and> length body > 1000)"
  by (cases a) (auto simp add: check_response_def)

lemma fetch_first_ok:
  assumes "0 \<le> b" and "0 \<le> k" and "k \<le> m"
    and "\<forall>i. 0 \<le> i \<and> i < k \<longrightarrow> isl (run_attempt (web u (nat i)))"
    and "run_attempt (web u (nat k)) = Inr body"
  shows "fetch_html_with_warm web u m b = (Inr body, map (backoff_seconds b) [0..k - 1])"
  using fetch_loop_first_ok [of b 0 k m "web u" body None "[]"] assms
  by (simp add: fetch_html_with_warm_def)

lemma fetch_all_fail:
  assumes "0 \<le> b" and "0 \<le> m"
    and "\<forall>i. 0 \<le> i \<and> i \<le> m \<longrightarrow> isl (run_attempt (web u (nat i)))"
  shows "fetch_html_with_warm web u m b =
     (Inl (fetch_failed (Some (projl (run_attempt (web u (nat m)))))),
      map (backoff_seconds b) [0..m - 1])"
  using fetch_loop_all_fail [of b 0 m "web u" None "[]"] assms
  by (simp add: fetch_html_with_warm_def)

lemma fetch_ok_iff:
  assumes "0 \<le> m" and "0 \<le> b"
  shows "(\<exists>body. fst (fetch_html_with_warm web u m b) = Inr body) \<longleftrightarrow>
         (\<exists>k. 0 \<le> k \<and> k \<le> m \<and> \<not> isl (run_attempt (web u (nat k))))"
proof
  assume "\<exists>body. fst (fetch_html_with_warm web u m b) = Inr body"
  then obtain body where r: "fst (fetch_html_with_warm web u m b) = Inr body" ..
  show "\<exists>k. 0 \<le> k \<and> k \<le> m \<and> \<not> isl (run_attempt (web u (nat k)))"
  proof (rule ccontr)
    assume "\<not> ?thesis"
    then have "\<forall>i. 0 \<le> i \<and> i \<le> m \<longrightarrow> isl (run_attempt (web u (nat i)))" by blast
    from fetch_all_fail [where web = web and u = u, OF assms(2,1) this] r show False by simp
  qed
next
  assume "\<exists>k. 0 \<le> k \<and> k \<le> m \<and> \<not> isl (run_attempt (web u (nat k)))"
  then obtain k where k: "0 \<le> k" "k \<le> m" "\<not> isl (run_attempt (web u (nat k)))" by blast
  define n where "n = (LEAST n. \<not> isl (run_attempt (web u n)))"
  from k(3) have n: "\<not> isl (run_attempt (web u n))"
    unfolding n_def by (rule LeastI)
  from k(3) have "n \<le> nat k"
    unfolding n_def by (rule Least_le)
  with k have range: "0 \<le> int n" "int n \<le> m" by simp_all
  have before: "\<forall>i. 0 \<le> i \<and> i < int n \<longrightarrow> isl (run_attempt (web u (nat i)))"
  proof (intro allI impI)
    fix i assume "0 \<le> i \<and> i < int n"
    then have "nat i < n" by (auto simp add: nat_less_iff)
    then show "isl (run_attempt (web u (nat i)))"
      unfolding n_def using not_less_Least by blast
  qed
  from n obtain body where "run_attempt (web u (nat (int n))) = Inr body"
    by (cases "run_attempt (web u n)") auto
  from fetch_first_ok [where web = web and u = u, OF assms(2) range before this]
  show "\<exists>body. fst (fetch_html_with_warm web u m b) = Inr body" by simp
qed

lemma first_row_find: "first_row trs = find row_matches trs"
  by (induction trs) simp_all

lemma find_first_split:
  "xs = pre @ x # post \<Longrightarrow> \<forall>y \<in> set pre. \<not> P y \<Longrightarrow> P x \<Longrightarrow> find P xs = Some x"
  by (induction pre arbitrary: xs) auto

lemma py_join_nil: "py_join [] xs = concat xs"
  by (induction "[] :: pystr" xs rule: py_join.induct) simp_all

lemma stripped_text_all_nil: "(\<forall>t \<in> set (stripped_text n). t = []) \<longleftrightarrow> stripped_text n = []"
  by (cases n) auto

lemma stripped_text_nil_iff: "stripped_text n = [] \<longleftrightarrow> (\<forall>t. n = Text t \<longrightarrow> py_strip t = [])"
  by (cases n) auto

lemma get_text_empty_iff:
  "get_text [] tag = [] \<longleftrightarrow> (\<forall>t. Text t \<in> set (descendants tag) \<longrightarrow> py_strip t = [])"
proof -
  have "get_text [] tag = [] \<longleftrightarrow> (\<forall>n \<in> set (descendants tag). stripped_text n = [])"
    by (simp add: get_text_def py_join_nil stripped_text_all_nil)
  also have "\<dots> \<longleftrightarrow> (\<forall>t. Text t \<in> set (descendants tag) \<longrightarrow> py_strip t = [])"
    by (auto simp add: stripped_text_nil_iff)
  finally show ?thesis .
qed

lemma priced_row_cell:
  "find_in (priced_row t) is_price_cell =
     Some (Elem (cp ''td'') [] (Some [cp ''price'']) [Elem (cp ''b'') [] None [Text t]])"
  by (simp add: priced_row_def find_in_def is_price_cell_def has_class_def)

lemma priced_row_bold:
  "find_in (Elem (cp ''td'') [] (Some [cp ''price'']) [Elem (cp ''b'') [] None [Text t]])
     (is_tag (cp ''b'')) = Some (Elem (cp ''b'') [] None [Text t])"
  by (simp add: find_in_def)

lemma handler_mails: "mails (snd (handler ev e st w)) = mails w"
  by (simp add: handler_def log_row_def save_state_def split: option.splits prod.splits)

lemma handler_rows_any:
  "rows (snd (handler ev e st w)) = rows w \<or>
   rows (snd (handler ev e st w)) =
     rows w @ [\<lparr>row_time = now ev, row_price = None, row_status = ERROR, row_note = str_exn e\<rparr>]"
  by (simp add: handler_def log_row_def save_state_def split: option.splits prod.splits)

lemma decide_keeps:
  "decide cfg ev lb st p w = (nt, st', w') \<Longrightarrow>
   stderr w' = stderr w \<and> rows w' = rows w \<and> stored w' = stored w \<and> stdout w' = stdout w"
  by (auto simp add: decide_def split: if_splits option.splits)

lemma try_body_priced_any:
  assumes "fetch_html_with_warm (net ev) (url cfg) 3 800 = (Inr html, sl)"
    and "extract_plate_price (html_parser ev) html = Inr (Some p)"
    and "decide cfg ev lb st p (w\<lparr>sleeps := sl\<rparr>) = (nt, st', w1)"
  shows "\<exists>x w'. try_body cfg ev lb st w = (x, st', w') \<and> mails w' = mails w1 \<and>
           (rows w' = rows w1 \<and> log_try ev \<noteq> None \<or>
            rows w' = rows w1 @ [\<lparr>row_time = now ev, row_price = Some p,
                                   row_status = status_of cfg p, row_note = nt\<rparr>] \<and>
            log_try ev = None)"
  using assms
  by (auto simp add: try_body_def log_row_def save_state_def split: option.splits prod.splits)

lemma main_priced_any:
  assumes "state_get (load_state (state_file ev)) = Inr (st, v)"
    and "fetch_html_with_warm (net ev) (url cfg) 3 800 = (Inr html, sl)"
    and "extract_plate_price (html_parser ev) html = Inr (Some p)"
    and "decide cfg ev (py_bool v) st p ((start ev)\<lparr>sleeps := sl\<rparr>) = (nt, st', w1)"
  shows "mails (snd (main cfg ev)) = mails w1"
    and "\<And>c. fst (main cfg ev) = Inr c \<Longrightarrow> c = 0 \<and> stored (snd (main cfg ev)) = Holds (JObj st')"
    and "log_try ev = None \<Longrightarrow>
         rows (snd (main cfg ev)) \<noteq> [] \<and>
         hd (rows (snd (main cfg ev))) =
           \<lparr>row_time = now ev, row_price = Some p, row_status = status_of cfg p, row_note = nt\<rparr>"
    and "\<forall>r \<in> set (rows (snd (main cfg ev))).
           r = \<lparr>row_time = now ev, row_price = Some p, row_status = status_of cfg p, row_note = nt\<rparr> \<or>
           row_price r = None \<and> row_status r = ERROR"
proof -
  from try_body_priced_any [OF assms(2,3,4)] obtain x w'
    where tb: "try_body cfg ev (py_bool v) st (start ev) = (x, st', w')"
      and m: "mails w' = mails w1"
      and r: "rows w' = rows w1 \<and> log_try ev \<noteq> None \<or>
            rows w' = rows w1 @ [\<lparr>row_time = now ev, row_price = Some p,
                                   row_status = status_of cfg p, row_note = nt\<rparr>] \<and>
            log_try ev = None"
    by blast
  from decide_keeps [OF assms(4)] have r1: "rows w1 = []" by (simp add: start_def)
  have mn: "main cfg ev = (case x of None \<Rightarrow> (Inr 0, w') | Some e \<Rightarrow> handler ev e st' w')"
    by (simp add: main_def assms(1) tb split: option.splits)
  show "mails (snd (main cfg ev)) = mails w1"
    by (cases x) (simp_all add: mn m handler_mails)
  show "c = 0 \<and> stored (snd (main cfg ev)) = Holds (JObj st')" if "fst (main cfg ev) = Inr c" for c
    using main_returned [OF assms(1) tb that] .
  show "rows (snd (main cfg ev)) \<noteq> [] \<and>
         hd (rows (snd (main cfg ev))) =
           \<lparr>row_time = now ev, row_price = Some p, row_status = status_of cfg p, row_note = nt\<rparr>"
    if "log_try ev = None"
  proof (cases x)
    case None
    with r that show ?thesis by (simp add: mn r1)
  next
    case (Some e)
    with r that handler_rows_any [of ev e st' w'] show ?thesis by (auto simp add: mn r1)
  qed
  show "\<forall>r \<in> set (rows (snd (main cfg ev))).
           r = \<lparr>row_time = now ev, row_price = Some p, row_status = status_of cfg p, row_note = nt\<rparr> \<or>
           row_price r = None \<and> row_status r = ERROR"
  proof (cases x)
    case None
    with r show ?thesis by (auto simp add: mn r1)
  next
    case (Some e)
    with r handler_rows_any [of ev e st' w'] show ?thesis by (auto simp add: mn r1)
  qed
qed

lemma send_cfg0_at: "send_email_alert (cfg0\<lparr>threshold := t\<rparr>) c p = c"
  by (simp add: send_email_alert_def cfg0_def truthy_def cp_def)

lemma state_get_latch:
  "state_get (load_state (latch b)) = Inr ([(last_below_key, JBool b)], JBool b)"
  by (simp add: latch_def load_state_def state_get_def)

lemma dict_set_latch: "dict_set [(last_below_key, JBool b)] last_below_key v = [(last_below_key, v)]"
  by simp

lemma page_world:
  assumes "net ev = (\<lambda>u i. Response 200 page)" and "html_parser ev = (\<lambda>h. Inr doc_199)"
  shows "fetch_html_with_warm (net ev) u 3 800 = (Inr page, [])"
    and "extract_plate_price (html_parser ev) page = Inr (Some (Fin 199))"
  by (simp_all add: assms fetch_page extract_199)



lemma unlogged_clear_run:
  "main cfg0 (unlogged (latch False)) =
     (Inl (Exn OSError (cp ''[Errno 2] No such file or directory'')),
      \<lparr>stored = latch False, rows = [], stdout = [], stderr = [],
         mails = [(Fin 199, None)], sleeps = []\<rparr>)"
proof -
  let ?ev = "unlogged (latch False)"
  have f: "state_file ?ev = latch False" "net ?ev = (\<lambda>u i. Response 200 page)"
    "html_parser ?ev = (\<lambda>h. Inr doc_199)" "smtp ?ev = None"
    "log_try ?ev = Some (Exn OSError (cp ''[Errno 2] No such file or directory''))"
    "log_handler ?ev = Some (Exn OSError (cp ''[Errno 2] No such file or directory''))"
    by (simp_all add: unlogged_def calm_fields)
  have b: "status_of cfg0 (Fin 199) = BELOW" by (simp add: status_of_def cfg0_def)
  have tb: "try_body cfg0 ?ev False [(last_below_key, JBool False)] (start ?ev) =
      (Some (Exn OSError (cp ''[Errno 2] No such file or directory'')),
       [(last_below_key, JBool True)],
       (start ?ev)\<lparr>sleeps := [], mails := [(Fin 199, None)]\<rparr>)"
    by (simp add: try_body_def f fetch_page extract_199 decide_def b send_cfg0 log_row_def
        start_def)
  have "main cfg0 ?ev =
      handler ?ev (Exn OSError (cp ''[Errno 2] No such file or directory''))
        [(last_below_key, JBool True)] ((start ?ev)\<lparr>sleeps := [], mails := [(Fin 199, None)]\<rparr>)"
    by (simp add: main_def f state_get_latch tb)
  then show ?thesis
    by (simp add: handler_def f log_row_def start_def)
qed


lemma mail_and_log_down_run:
  "main cfg0 mail_and_log_down =
     (Inr 0,
      \<lparr>stored = latch False,
         rows = [\<lparr>row_time = cp ''2025-10-01 12:00:00'', row_price = None,
                   row_status = ERROR, row_note = cp ''No space left on device''\<rparr>],
         stdout = [],
         stderr = [Plain (cp ''ERROR: '' @ cp ''No space left on device'')],
         mails = [(Fin 199, Some (Exn OSError (cp ''Connection refused'')))], sleeps = []\<rparr>)"
proof -
  let ?ev = "mail_and_log_down"
  have f: "state_file ?ev = latch False" "net ?ev = (\<lambda>u i. Response 200 page)"
    "html_parser ?ev = (\<lambda>h. Inr doc_199)"
    "smtp ?ev = Some (Exn OSError (cp ''Connection refused''))"
    "log_try ?ev = Some (Exn OSError (cp ''No space left on device''))"
    "log_handler ?ev = None" "save_handler ?ev = None"
    "now ?ev = cp ''2025-10-01 12:00:00''"
    by (simp_all add: mail_and_log_down_def log_hiccup_def calm_fields)
  have b: "status_of cfg0 (Fin 199) = BELOW" by (simp add: status_of_def cfg0_def)
  have tb: "try_body cfg0 ?ev False [(last_below_key, JBool False)] (start ?ev) =
      (Some (Exn OSError (cp ''No space left on device'')),
       [(last_below_key, JBool False)],
       (start ?ev)\<lparr>sleeps := [],
          mails := [(Fin 199, Some (Exn OSError (cp ''Connection refused'')))]\<rparr>)"
    by (simp add: try_body_def f fetch_page extract_199 decide_def b send_cfg0 log_row_def
        start_def)
  have "main cfg0 ?ev =
      handler ?ev (Exn OSError (cp ''No space left on device''))
        [(last_below_key, JBool False)]
        ((start ?ev)\<lparr>sleeps := [],
           mails := [(Fin 199, Some (Exn OSError (cp ''Connection refused'')))]\<rparr>)"
    by (simp add: main_def f state_get_latch tb)
  then show ?thesis
    by (simp add: handler_quiet f start_def latch_def)
qed

lemma calm_above_run:
  "main (cfg0\<lparr>threshold := Fin 150\<rparr>) (calm (latch True)) =
     (Inr 0,
      \<lparr>stored = latch False,
         rows = [\<lparr>row_time = cp ''2025-10-01 12:00:00'', row_price = Some (Fin 199),
                   row_status = ABOVE, row_note = latch_reset_note\<rparr>],
         stdout = [WithPrice ABOVE (Fin 199)], stderr = [],
         mails = [], sleeps = []\<rparr>)"
proof -
  let ?cfg = "cfg0\<lparr>threshold := Fin 150\<rparr>" and ?ev = "calm (latch True)"
  have b: "status_of ?cfg (Fin 199) = ABOVE" by (simp add: status_of_def)
  have sg: "state_get (load_state (state_file ?ev)) =
      Inr ([(last_below_key, JBool True)], JBool True)"
    by (simp add: calm_fields state_get_latch)
  have f: "fetch_html_with_warm (net ?ev) (url ?cfg) 3 800 = (Inr page, [])"
    by (simp add: calm_fields fetch_page)
  have x: "extract_plate_price (html_parser ?ev) page = Inr (Some (Fin 199))"
    by (simp add: calm_fields extract_199)
  have l: "log_try ?ev = None" and sv: "save_try ?ev = None"
    by (simp_all add: calm_fields)
  note m = main_priced [OF sg f x l sv decide_above [OF b]]
  show ?thesis
    unfolding m by (simp add: start_def calm_fields b latch_def)
qed

lemma unsaved_run:
  "main (cfg0\<lparr>threshold := Fin 150\<rparr>) unsaved =
     (Inl (Exn OSError (cp ''[Errno 13] Permission denied'')),
      \<lparr>stored = latch True,
         rows = [\<lparr>row_time = cp ''2025-10-01 12:00:00'', row_price = Some (Fin 199),
                   row_status = ABOVE, row_note = latch_reset_note\<rparr>,
                 \<lparr>row_time = cp ''2025-10-01 12:00:00'', row_price = None,
                   row_status = ERROR, row_note = cp ''[Errno 13] Permission denied''\<rparr>],
         stdout = [],
         stderr = [Plain (cp ''ERROR: '' @ cp ''[Errno 13] Permission denied'')],
         mails = [], sleeps = []\<rparr>)"
proof -
  let ?cfg = "cfg0\<lparr>threshold := Fin 150\<rparr>" and ?ev = "unsaved"
  have f: "state_file ?ev = latch True" "net ?ev = (\<lambda>u i. Response 200 page)"
    "html_parser ?ev = (\<lambda>h. Inr doc_199)" "smtp ?ev = None" "log_try ?ev = None"
    "save_try ?ev = Some (Exn OSError (cp ''[Errno 13] Permission denied''), latch True)"
    "log_handler ?ev = None"
    "save_handler ?ev = Some (Exn OSError (cp ''[Errno 13] Permission denied''), latch True)"
    "now ?ev = cp ''2025-10-01 12:00:00''"
    by (simp_all add: unsaved_def calm_fields)
  have b: "status_of ?cfg (Fin 199) = ABOVE" by (simp add: status_of_def)
  have tb: "try_body ?cfg ?ev True [(last_below_key, JBool True)] (start ?ev) =
      (Some (Exn OSError (cp ''[Errno 13] Permission denied'')),
       [(last_below_key, JBool False)],
       (start ?ev)\<lparr>sleeps := [],
          rows := [\<lparr>row_time = cp ''2025-10-01 12:00:00'', row_price = Some (Fin 199),
                    row_status = ABOVE, row_note = latch_reset_note\<rparr>],
          stored := latch True\<rparr>)"
    by (simp add: try_body_def f fetch_page extract_199 decide_def b status_distinct [symmetric]
        log_row_def save_state_def start_def)
  have "main ?cfg ?ev =
      handler ?ev (Exn OSError (cp ''[Errno 13] Permission denied''))
        [(last_below_key, JBool False)]
        ((start ?ev)\<lparr>sleeps := [],
          rows := [\<lparr>row_time = cp ''2025-10-01 12:00:00'', row_price = Some (Fin 199),
                    row_status = ABOVE, row_note = latch_reset_note\<rparr>],
          stored := latch True\<rparr>)"
    by (simp add: main_def f state_get_latch tb)
  then show ?thesis
    by (simp add: handler_def f log_row_def save_state_def start_def)
qed

lemma flt_less_nan: "\<not> flt_less a NaN"
  by (cases a) simp_all

lemma decide_mails:
  "decide cfg ev lb st p w = (nt, st', w') \<Longrightarrow> mails w' \<noteq> mails w \<Longrightarrow>
   flt_less p (threshold cfg) \<and> \<not> lb"
  by (auto simp add: decide_def status_below_iff split: if_splits option.splits)

lemma try_body_priced_dict:
  assumes "fetch_html_with_warm (net ev) (url cfg) 3 800 = (Inr html, sl)"
    and "extract_plate_price (html_parser ev) html = Inr (Some p)"
    and "decide cfg ev lb st p (w\<lparr>sleeps := sl\<rparr>) = (nt, st', w1)"
    and "try_body cfg ev lb st w = (x, st'', w')"
  shows "st'' = st'"
  using try_body_priced_any [OF assms(1,2,3)] assms(4) by auto

lemma calm_not_below_run:
  assumes "t \<le> 199"
  shows "main (cfg0\<lparr>threshold := Fin t\<rparr>) (calm (latch True)) =
     (Inr 0,
      \<lparr>stored = latch False,
         rows = [\<lparr>row_time = cp ''2025-10-01 12:00:00'', row_price = Some (Fin 199),
                   row_status = ABOVE, row_note = latch_reset_note\<rparr>],
         stdout = [WithPrice ABOVE (Fin 199)], stderr = [],
         mails = [], sleeps = []\<rparr>)"
proof -
  let ?cfg = "cfg0\<lparr>threshold := Fin t\<rparr>" and ?ev = "calm (latch True)"
  have b: "status_of ?cfg (Fin 199) = ABOVE" using assms by (simp add: status_of_def)
  have sg: "state_get (load_state (state_file ?ev)) =
      Inr ([(last_below_key, JBool True)], JBool True)"
    by (simp add: calm_fields state_get_latch)
  have f: "fetch_html_with_warm (net ?ev) (url ?cfg) 3 800 = (Inr page, [])"
    by (simp add: calm_fields fetch_page)
  have x: "extract_plate_price (html_parser ?ev) page = Inr (Some (Fin 199))"
    by (simp add: calm_fields extract_199)
  have l: "log_try ?ev = None" and sv: "save_try ?ev = None"
    by (simp_all add: calm_fields)
  note m = main_priced [OF sg f x l sv decide_above [OF b]]
  show ?thesis
    unfolding m by (simp add: start_def calm_fields b latch_def)
qed






section \<open>The claims\<close>



text \<open>
  The claim as it stands names the note \<^verbatim>\<open>Latch reset\<close> and speaks of every run. The
  note the program logs is the longer text. And when the state file cannot be written
  (the write raises in the \<^verbatim>\<open>try\<close> block and again in the handler), the run ends with
  status 1 and the latch on disk stays set.
\<close>

theorem latch_reset_counterexample:
  "read_latch (state_file (calm (latch True))) = Inr True \<and>
   status_of (cfg0\<lparr>threshold := Fin 150\<rparr>) (Fin 199) = ABOVE \<and>
   map row_note (rows (snd (main (cfg0\<lparr>threshold := Fin 150\<rparr>) (calm (latch True))))) =
     [cp ''Latch reset (price went above threshold)''] \<and>
   cp ''Latch reset (price went above threshold)'' \<noteq> cp ''Latch reset'' \<and>
   read_latch (state_file unsaved) = Inr True \<and>
   exit_code (main (cfg0\<lparr>threshold := Fin 150\<rparr>) unsaved) = 1 \<and>
   read_latch (stored (snd (main (cfg0\<lparr>threshold := Fin 150\<rparr>) unsaved))) = Inr True"
proof -
  have "read_latch (state_file (calm (latch True))) = Inr True"
    by (simp add: calm_fields read_latch_latch)
  moreover have "status_of (cfg0\<lparr>threshold := Fin 150\<rparr>) (Fin 199) = ABOVE"
    by (simp add: status_of_def)
  moreover have "cp ''Latch reset (price went above threshold)'' \<noteq> cp ''Latch reset''"
    by (simp add: cp_def)
  moreover have "read_latch (state_file unsaved) = Inr True"
    by (simp add: unsaved_def calm_fields read_latch_latch)
  ultimately show ?thesis
    by (simp add: calm_above_run unsaved_run exit_code_def read_latch_latch latch_reset_note_def)
qed

text \<open>
  C10 (threshold boundary). The status of an extracted price is \<^verbatim>\<open>BELOW\<close> exactly
  when the price is less than the threshold in Python's comparison of floats, and
  \<^verbatim>\<open>ABOVE\<close> otherwise: for a finite threshold \<open>t\<close> a finite price \<open>a\<close> is
  \<^verbatim>\<open>BELOW\<close> exactly when \<open>a < t\<close> and \<^verbatim>\<open>ABOVE\<close> exactly when \<open>t \<le> a\<close>, and a
  NaN on either side gives \<^verbatim>\<open>ABOVE\<close>. A price equal to the threshold is
  \<^verbatim>\<open>ABOVE\<close>. In every run that extracts a price \<open>p\<close>, whatever its writes do, each
  row logged with a price carries the status of \<open>p\<close>, and a mail is sent only when
  \<open>p\<close> is less than the threshold. When \<open>p\<close> is the threshold the run sends no mail,
  the dictionary that leaves the \<^verbatim>\<open>try\<close> block has \<^verbatim>\<open>last_below\<close> false, and a run
  that returns has persisted a clear latch.
\<close>

theorem threshold_boundary:
  "(status_of cfg p = BELOW \<longleftrightarrow> flt_less p (threshold cfg)) \<and>
   (status_of cfg p = ABOVE \<longleftrightarrow> \<not> flt_less p (threshold cfg)) \<and>
   (threshold cfg = Fin t \<longrightarrow>
      (status_of cfg (Fin a) = BELOW \<longleftrightarrow> a < t) \<and>
      (status_of cfg (Fin a) = ABOVE \<longleftrightarrow> t \<le> a) \<and>
      status_of cfg NInf = BELOW \<and> status_of cfg PInf = ABOVE) \<and>
   status_of cfg NaN = ABOVE \<and>
   (threshold cfg = NaN \<longrightarrow> status_of cfg p = ABOVE) \<and>
   status_of cfg (threshold cfg) = ABOVE \<and>
   (state_get (load_state (state_file ev)) = Inr (st, v) \<and>
    fetch_html_with_warm (net ev) (url cfg) 3 800 = (Inr html, sl) \<and>
    extract_plate_price (html_parser ev) html = Inr (Some p) \<longrightarrow>
      (\<forall>r \<in> set (rows (snd (main cfg ev))). row_price r \<noteq> None \<longrightarrow> row_status r = status_of cfg p) \<and>
      (mails (snd (main cfg ev)) \<noteq> [] \<longrightarrow> flt_less p (threshold cfg)) \<and>
      (p = threshold cfg \<longrightarrow>
         mails (snd (main cfg ev)) = [] \<and>
         (\<forall>x st' w. try_body cfg ev (py_bool v) st (start ev) = (x, st', w) \<longrightarrow>
            map_of st' last_below_key = Some (JBool False)) \<and>
         (\<forall>c. fst (main cfg ev) = Inr c \<longrightarrow>
            read_latch (stored (snd (main cfg ev))) = Inr False)))"
proof -
  have order: "(status_of cfg (Fin a) = BELOW \<longleftrightarrow> a < t) \<and>
      (status_of cfg (Fin a) = ABOVE \<longleftrightarrow> t \<le> a) \<and>
      status_of cfg NInf = BELOW \<and> status_of cfg PInf = ABOVE" if "threshold cfg = Fin t"
    using that by (auto simp add: status_below_iff status_above_iff)
  have nan: "status_of cfg NaN = ABOVE"
    by (simp add: status_above_iff)
  have nan_thr: "status_of cfg p = ABOVE" if "threshold cfg = NaN"
    using that by (simp add: status_above_iff flt_less_nan)
  have eq: "status_of cfg (threshold cfg) = ABOVE"
    by (simp add: status_above_iff flt_less_irrefl)
  have run: "(\<forall>r \<in> set (rows (snd (main cfg ev))). row_price r \<noteq> None \<longrightarrow> row_status r = status_of cfg p) \<and>
      (mails (snd (main cfg ev)) \<noteq> [] \<longrightarrow> flt_less p (threshold cfg)) \<and>
      (p = threshold cfg \<longrightarrow>
         mails (snd (main cfg ev)) = [] \<and>
         (\<forall>x st' w. try_body cfg ev (py_bool v) st (start ev) = (x, st', w) \<longrightarrow>
            map_of st' last_below_key = Some (JBool False)) \<and>
         (\<forall>c. fst (main cfg ev) = Inr c \<longrightarrow>
            read_latch (stored (snd (main cfg ev))) = Inr False))"
    if h: "state_get (load_state (state_file ev)) = Inr (st, v) \<and>
      fetch_html_with_warm (net ev) (url cfg) 3 800 = (Inr html, sl) \<and>
      extract_plate_price (html_parser ev) html = Inr (Some p)"
  proof -
    from h have sg: "state_get (load_state (state_file ev)) = Inr (st, v)"
      and f: "fetch_html_with_warm (net ev) (url cfg) 3 800 = (Inr html, sl)"
      and x: "extract_plate_price (html_parser ev) html = Inr (Some p)"
      by simp_all
    obtain nt st1 w1
      where d: "decide cfg ev (py_bool v) st p ((start ev)\<lparr>sleeps := sl\<rparr>) = (nt, st1, w1)"
      by (cases "decide cfg ev (py_bool v) st p ((start ev)\<lparr>sleeps := sl\<rparr>)") auto
    note any = main_priced_any [OF sg f x d]
    have a: "\<forall>r \<in> set (rows (snd (main cfg ev))). row_price r \<noteq> None \<longrightarrow> row_status r = status_of cfg p"
      using any(4) by auto
    have b: "flt_less p (threshold cfg)" if "mails (snd (main cfg ev)) \<noteq> []"
      using decide_mails [OF d] that any(1) by (simp add: start_def)
    have c: "mails (snd (main cfg ev)) = [] \<and>
         (\<forall>x st' w. try_body cfg ev (py_bool v) st (start ev) = (x, st', w) \<longrightarrow>
            map_of st' last_below_key = Some (JBool False)) \<and>
         (\<forall>c. fst (main cfg ev) = Inr c \<longrightarrow>
            read_latch (stored (snd (main cfg ev))) = Inr False)" if pt: "p = threshold cfg"
    proof -
      from pt eq have ab: "status_of cfg p = ABOVE" by simp
      from d decide_above [OF ab] have st1: "st1 = dict_set st last_below_key (JBool False)"
        and w1: "w1 = (start ev)\<lparr>sleeps := sl\<rparr>"
        by simp_all
      from any(1) w1 have "mails (snd (main cfg ev)) = []" by (simp add: start_def)
      moreover have "map_of st' last_below_key = Some (JBool False)"
        if "try_body cfg ev (py_bool v) st (start ev) = (x, st', w)" for x st' w
        using try_body_priced_dict [OF f x d that] st1 by (simp add: map_of_dict_set)
      moreover have "read_latch (stored (snd (main cfg ev))) = Inr False"
        if "fst (main cfg ev) = Inr c" for c
        using any(2) [OF that] st1 by (simp add: read_latch_set)
      ultimately show ?thesis by blast
    qed
    from a b c show ?thesis by blast
  qed
  from status_below_iff [of cfg p] status_above_iff [of cfg p] order nan nan_thr eq run
  show ?thesis by blast
qed

text \<open>
  The theorem at the threshold 230 with prices below, at and above it, and at a run with
  a set latch whose price and threshold are both 199.00.
\<close>

theorem threshold_boundary_witness:
  "threshold cfg0 = Fin 230 \<and>
   status_of cfg0 (Fin 199) = BELOW \<and>
   status_of cfg0 (Fin (22999 / 100)) = BELOW \<and>
   status_of cfg0 (Fin 230) = ABOVE \<and>
   status_of cfg0 (Fin 231) = ABOVE \<and>
   extract_plate_price (html_parser (calm (latch True))) page =
     Inr (Some (threshold (cfg0\<lparr>threshold := Fin 199\<rparr>))) \<and>
   mails (snd (main (cfg0\<lparr>threshold := Fin 199\<rparr>) (calm (latch True)))) = [] \<and>
   map row_status (rows (snd (main (cfg0\<lparr>threshold := Fin 199\<rparr>) (calm (latch True))))) = [ABOVE] \<and>
   fst (main (cfg0\<lparr>threshold := Fin 199\<rparr>) (calm (latch True))) = Inr 0 \<and>
   read_latch (stored (snd (main (cfg0\<lparr>threshold := Fin 199\<rparr>) (calm (latch True))))) = Inr False"
proof -
  let ?cfg = "cfg0\<lparr>threshold := Fin 199\<rparr>" and ?ev = "calm (latch True)"
  have t: "threshold cfg0 = Fin 230" by (simp add: cfg0_def)
  from threshold_boundary [where cfg = cfg0 and t = 230 and a = 199] t
  have s1: "status_of cfg0 (Fin 199) = BELOW" by simp
  from threshold_boundary [where cfg = cfg0 and t = 230 and a = "22999 / 100"] t
  have s2: "status_of cfg0 (Fin (22999 / 100)) = BELOW" by simp
  from threshold_boundary [where cfg = cfg0 and t = 230 and a = 230] t
  have s3: "status_of cfg0 (Fin 230) = ABOVE" by simp
  from threshold_boundary [where cfg = cfg0 and t = 230 and a = 231] t
  have s4: "status_of cfg0 (Fin 231) = ABOVE" by simp
  have h: "state_get (load_state (state_file ?ev)) =
        Inr ([(last_below_key, JBool True)], JBool True) \<and>
      fetch_html_with_warm (net ?ev) (url ?cfg) 3 800 = (Inr page, []) \<and>
      extract_plate_price (html_parser ?ev) page = Inr (Some (Fin 199))"
    by (simp add: calm_fields state_get_latch fetch_page extract_199)
  have z: "fst (main ?cfg ?ev) = Inr 0"
    by (simp add: calm_not_below_run)
  from threshold_boundary [where cfg = ?cfg and p = "Fin 199" and ev = ?ev
      and st = "[(last_below_key, JBool True)]" and v = "JBool True" and html = page and sl = "[]"] h z
  have "mails (snd (main ?cfg ?ev)) = []"
    and "read_latch (stored (snd (main ?cfg ?ev))) = Inr False"
    by simp_all
  with t s1 s2 s3 s4 h z show ?thesis
    by (simp add: calm_not_below_run)
qed



text \<open>
  The claim as it stands speaks of every such pair of runs. When the log cannot be
  written, the first run sends the alert, its \<^verbatim>\<open>log_row\<close> raises in the
  \<^verbatim>\<open>try\<close> block and again in the handler, and the program ends before
  \<^verbatim>\<open>save_state\<close>: the latch on disk stays clear and the second run sends the alert
  again, two alerts in all.
\<close>

theorem latch_idempotence_counterexample:
  "read_latch (state_file (unlogged (latch False))) = Inr False \<and>
   mails (snd (main cfg0 (unlogged (latch False)))) = [(Fin 199, None)] \<and>
   stored (snd (main cfg0 (unlogged (latch False)))) = latch False \<and>
   mails (snd (main cfg0 (unlogged (stored (snd (main cfg0 (unlogged (latch False))))))))
     = [(Fin 199, None)] \<and>
   length (mails (snd (main cfg0 (unlogged (latch False)))) @
           mails (snd (main cfg0 (unlogged (stored (snd (main cfg0 (unlogged (latch False)))))))))
     = 2"
  by (simp add: unlogged_clear_run) (simp add: unlogged_def calm_fields read_latch_latch)



text \<open>
  The claim as it stands speaks of every such run. When the mail server refuses the
  connection and the write of the \<^verbatim>\<open>BELOW\<close> row then raises, the handler logs an
  \<^verbatim>\<open>ERROR\<close> row whose note is the text of the log error: no \<^verbatim>\<open>BELOW\<close> row
  exists and the email error is in no note.
\<close>

theorem mail_failure_counterexample:
  "read_latch (state_file mail_and_log_down) = Inr False \<and>
   flt_less (Fin 199) (threshold cfg0) \<and>
   mails (snd (main cfg0 mail_and_log_down)) =
     [(Fin 199, Some (Exn OSError (cp ''Connection refused'')))] \<and>
   map row_status (rows (snd (main cfg0 mail_and_log_down))) = [ERROR] \<and>
   map row_note (rows (snd (main cfg0 mail_and_log_down))) = [cp ''No space left on device'']"
proof -
  have "read_latch (state_file mail_and_log_down) = Inr False"
    by (simp add: mail_and_log_down_def log_hiccup_def calm_fields read_latch_latch)
  moreover have "flt_less (Fin 199) (threshold cfg0)"
    by (simp add: cfg0_def)
  ultimately show ?thesis
    by (simp add: mail_and_log_down_run)
qed

text \<open>
  C7 (frame on \<^verbatim>\<open>NO_MATCH\<close> and \<^verbatim>\<open>ERROR\<close>), as amended. A run that gets no
  price (the fetcher raises, the extractor raises, or the extractor returns
  \<^verbatim>\<open>None\<close>) and returns, returns 0, sends no mail, ends its log with a
  \<^verbatim>\<open>NO_MATCH\<close> or an \<^verbatim>\<open>ERROR\<close> row, and persists a state whose latch reads as
  the latch it loaded.
\<close>

theorem frame_without_price:
  assumes "read_latch (state_file ev) = Inr lb"
    and "fetch_html_with_warm (net ev) (url cfg) 3 800 = (r, sl)"
    and "\<forall>html p. r = Inr html \<longrightarrow> extract_plate_price (html_parser ev) html \<noteq> Inr (Some p)"
    and "fst (main cfg ev) = Inr c"
  shows "c = 0 \<and>
         read_latch (stored (snd (main cfg ev))) = Inr lb \<and>
         mails (snd (main cfg ev)) = [] \<and>
         rows (snd (main cfg ev)) \<noteq> [] \<and>
         (row_status (last (rows (snd (main cfg ev)))) = NO_MATCH \<or>
          row_status (last (rows (snd (main cfg ev)))) = ERROR)"
proof -
  from assms(1) obtain st v
    where sg: "state_get (load_state (state_file ev)) = Inr (st, v)" and lb: "py_bool v = lb"
    by (auto dest: read_latch_Inr)
  obtain x st' w where tb: "try_body cfg ev (py_bool v) st (start ev) = (x, st', w)"
    by (cases "try_body cfg ev (py_bool v) st (start ev)") auto
  from try_body_no_price [OF assms(2,3) tb] have same: "st' = st" and nomail: "mails w = []"
    by (simp_all add: start_def)
  from main_returned [OF sg tb assms(4)] same
  have c0: "c = 0" and kept: "stored (snd (main cfg ev)) = Holds (JObj st)"
    by simp_all
  from kept read_latch_kept [OF sg] lb
  have latch_same: "read_latch (stored (snd (main cfg ev))) = Inr lb"
    by simp
  have "mails (snd (main cfg ev)) = [] \<and> rows (snd (main cfg ev)) \<noteq> [] \<and>
         (row_status (last (rows (snd (main cfg ev)))) = NO_MATCH \<or>
          row_status (last (rows (snd (main cfg ev)))) = ERROR)"
  proof (cases x)
    case None
    with sg tb have m: "main cfg ev = (Inr 0, w)" by (simp add: main_def)
    from try_body_no_price_rows [OF assms(2,3) tb [unfolded None]]
    show ?thesis by (simp add: m nomail)
  next
    case (Some e)
    with sg tb have m: "main cfg ev = handler ev e st' w" by (simp add: main_def)
    with assms(4) obtain w' where h: "handler ev e st' w = (Inr c, w')"
      by (cases "handler ev e st' w") auto
    from handler_rows [OF h] show ?thesis by (simp add: m h nomail)
  qed
  with c0 latch_same show ?thesis by simp
qed

text \<open>The theorem at a set latch and a site that answers 403 four times.\<close>

theorem frame_without_price_witness:
  "read_latch (state_file ((calm (latch True))\<lparr>net := \<lambda>u i. Response 403 []\<rparr>)) = Inr True \<and>
   fst (main cfg0 ((calm (latch True))\<lparr>net := \<lambda>u i. Response 403 []\<rparr>)) = Inr 0 \<and>
   read_latch (stored (snd (main cfg0 ((calm (latch True))\<lparr>net := \<lambda>u i. Response 403 []\<rparr>)))) = Inr True \<and>
   mails (snd (main cfg0 ((calm (latch True))\<lparr>net := \<lambda>u i. Response 403 []\<rparr>))) = []"
proof -
  let ?ev = "(calm (latch True))\<lparr>net := \<lambda>u i. Response 403 []\<rparr>"
  have h1: "read_latch (state_file ?ev) = Inr True"
    by (simp add: calm_fields read_latch_latch)
  have h2: "fetch_html_with_warm (net ?ev) (url cfg0) 3 800 =
     (Inl (fetch_failed (Some (Exn RuntimeError (cp ''Bad HTTP 403 or tiny body'')))),
      [4 / 5, 8 / 5, 12 / 5])"
    by (simp add: fetch_403)
  have h3: "\<forall>html p. Inl (fetch_failed (Some (Exn RuntimeError (cp ''Bad HTTP 403 or tiny body'')))) = Inr html
      \<longrightarrow> extract_plate_price (html_parser ?ev) html \<noteq> Inr (Some p)"
    by simp
  have h4: "fst (main cfg0 ?ev) = Inr 0"
    by (simp add: main_def latch_def load_state_def state_get_def calm_fields
        try_body_def fetch_403 handler_quiet)
  from frame_without_price [OF h1 h2 h3 h4] h1 h4 show ?thesis by simp
qed

text \<open>
  The claim as it stands covers every \<^verbatim>\<open>ERROR\<close> run. It fails when the exception
  comes after the latch decision: the latch is clear, the price 199.00 is below 230, the
  alert goes out and the dictionary is updated, then the write of the log row raises;
  the handler logs \<^verbatim>\<open>ERROR\<close> and persists the dictionary as it is, the latch set.
\<close>

theorem frame_on_error_counterexample:
  "read_latch (state_file log_hiccup) = Inr False \<and>
   fst (main cfg0 log_hiccup) = Inr 0 \<and>
   map row_status (rows (snd (main cfg0 log_hiccup))) = [ERROR] \<and>
   read_latch (stored (snd (main cfg0 log_hiccup))) = Inr True"
proof -
  have sg: "state_get (load_state (state_file log_hiccup))
      = Inr ([(last_below_key, JBool False)], JBool False)"
    by (simp add: log_hiccup_def calm_fields latch_def load_state_def state_get_def)
  have tb: "try_body cfg0 log_hiccup False [(last_below_key, JBool False)] (start log_hiccup)
      = (Some (Exn OSError (cp ''No space left on device'')),
         [(last_below_key, JBool True)],
         (start log_hiccup)\<lparr>sleeps := [], mails := [(Fin 199, None)]\<rparr>)"
    by (simp add: try_body_def log_hiccup_def calm_fields fetch_page extract_199
        decide_def status_of_def cfg0_def send_email_alert_def truthy_def log_row_def start_def
        cp_def)
  have "main cfg0 log_hiccup =
      handler log_hiccup (Exn OSError (cp ''No space left on device''))
        [(last_below_key, JBool True)]
        ((start log_hiccup)\<lparr>sleeps := [], mails := [(Fin 199, None)]\<rparr>)"
    by (simp add: main_def sg tb)
  then have m: "main cfg0 log_hiccup =
      (Inr 0,
       \<lparr>stored = Holds (JObj [(last_below_key, JBool True)]),
          rows = [\<lparr>row_time = now log_hiccup, row_price = None, row_status = ERROR,
                    row_note = cp ''No space left on device''\<rparr>],
          stdout = [],
          stderr = [Plain (cp ''ERROR: '' @ cp ''No space left on device'')],
          mails = [(Fin 199, None)], sleeps = []\<rparr>)"
    by (simp add: handler_quiet log_hiccup_def calm_fields start_def)
  have "read_latch (state_file log_hiccup) = Inr False"
    by (simp add: log_hiccup_def calm_fields read_latch_latch)
  moreover have "read_latch (Holds (JObj [(last_below_key, JBool True)])) = Inr True"
    by (simp add: read_latch_def load_state_def state_get_def)
  ultimately show ?thesis
    by (simp add: m)
qed



text \<open>
  The claim as it stands covers every file that is not the JSON object the state file
  should be. A file that holds a JSON array or \<^verbatim>\<open>null\<close> is returned as loaded, and
  \<^verbatim>\<open>state.get\<close> raises before the \<^verbatim>\<open>try\<close> block: the run ends with status 1. A
  file whose \<^verbatim>\<open>last_below\<close> is the string \<^verbatim>\<open>false\<close> reads as a set latch.
\<close>

theorem state_file_fallback_counterexample:
  "load_state (Holds (JArr [])) = JArr [] \<and>
   read_latch (Holds (JArr [])) =
     Inl (Exn AttributeError
           ([39] @ cp ''list'' @ [39] @ cp '' object has no attribute '' @ [39] @ cp ''get'' @ [39])) \<and>
   exit_code (main cfg0 (calm (Holds (JArr [])))) = 1 \<and>
   mails (snd (main cfg0 (calm (Holds (JArr []))))) = [] \<and>
   read_latch (Holds JNull) =
     Inl (Exn AttributeError
           ([39] @ cp ''NoneType'' @ [39] @ cp '' object has no attribute '' @ [39] @ cp ''get'' @ [39])) \<and>
   read_latch (Holds (JObj [(last_below_key, JStr (cp ''false''))])) = Inr True"
  by (simp add: load_state_def read_latch_def state_get_def main_def exit_code_def calm_fields
      start_def)
     (simp add: cp_def)

text \<open>
  C9 (exit code 0), as amended. When the loaded state is a dictionary and the handler's
  own writes of the log and of the state file succeed, \<^verbatim>\<open>main\<close> returns 0; and when
  an exception \<open>e\<close> leaves the \<^verbatim>\<open>try\<close> block (raised by the fetcher, by the
  extractor, or by a write of the log or of the state file), the run appends an
  \<^verbatim>\<open>ERROR\<close> row whose note is the text of \<open>e\<close> and prints \<^verbatim>\<open>ERROR: \<close> with that
  text on standard error.
\<close>

theorem exit_zero_inside_boundary:
  assumes "state_get (load_state (state_file ev)) = Inr (st, v)"
    and "log_handler ev = None" and "save_handler ev = None"
  shows "fst (main cfg ev) = Inr 0 \<and> exit_code (main cfg ev) = 0 \<and>
    (\<forall>e st' w. try_body cfg ev (py_bool v) st (start ev) = (Some e, st', w) \<longrightarrow>
       rows (snd (main cfg ev)) =
         rows w @ [\<lparr>row_time = now ev, row_price = None, row_status = ERROR,
                     row_note = str_exn e\<rparr>] \<and>
       stderr (snd (main cfg ev)) = [Plain (cp ''ERROR: '' @ str_exn e)]) \<and>
    (\<forall>e sl. fetch_html_with_warm (net ev) (url cfg) 3 800 = (Inl e, sl) \<longrightarrow>
       rows (snd (main cfg ev)) =
         [\<lparr>row_time = now ev, row_price = None, row_status = ERROR, row_note = str_exn e\<rparr>] \<and>
       stderr (snd (main cfg ev)) = [Plain (cp ''ERROR: '' @ str_exn e)]) \<and>
    (\<forall>e html sl. fetch_html_with_warm (net ev) (url cfg) 3 800 = (Inr html, sl) \<and>
         extract_plate_price (html_parser ev) html = Inl e \<longrightarrow>
       rows (snd (main cfg ev)) =
         [\<lparr>row_time = now ev, row_price = None, row_status = ERROR, row_note = str_exn e\<rparr>] \<and>
       stderr (snd (main cfg ev)) = [Plain (cp ''ERROR: '' @ str_exn e)])"
proof -
  have raised: "rows (snd (main cfg ev)) =
         rows w @ [\<lparr>row_time = now ev, row_price = None, row_status = ERROR,
                     row_note = str_exn e\<rparr>] \<and>
       stderr (snd (main cfg ev)) = [Plain (cp ''ERROR: '' @ str_exn e)] \<and>
       fst (main cfg ev) = Inr 0"
    if tb: "try_body cfg ev (py_bool v) st (start ev) = (Some e, st', w)" for e st' w
  proof -
    from try_body_stderr [OF tb] have "stderr w = []" by (simp add: start_def)
    then show ?thesis
      by (simp add: main_def assms(1) tb handler_quiet [OF assms(2,3)])
  qed
  have zero: "fst (main cfg ev) = Inr 0"
  proof (cases "try_body cfg ev (py_bool v) st (start ev)")
    case (fields x st' w)
    show ?thesis
    proof (cases x)
      case None
      with fields show ?thesis by (simp add: main_def assms(1))
    next
      case (Some e)
      with fields raised show ?thesis by simp
    qed
  qed
  have fetching: "rows (snd (main cfg ev)) =
         [\<lparr>row_time = now ev, row_price = None, row_status = ERROR, row_note = str_exn e\<rparr>] \<and>
       stderr (snd (main cfg ev)) = [Plain (cp ''ERROR: '' @ str_exn e)]"
    if "fetch_html_with_warm (net ev) (url cfg) 3 800 = (Inl e, sl)" for e sl
    using raised [OF try_body_fetch_failed [OF that]] by (simp add: start_def)
  have extracting: "rows (snd (main cfg ev)) =
         [\<lparr>row_time = now ev, row_price = None, row_status = ERROR, row_note = str_exn e\<rparr>] \<and>
       stderr (snd (main cfg ev)) = [Plain (cp ''ERROR: '' @ str_exn e)]"
    if "fetch_html_with_warm (net ev) (url cfg) 3 800 = (Inr html, sl)"
      and "extract_plate_price (html_parser ev) html = Inl e" for e html sl
    using raised [OF try_body_extract_failed [OF that]] by (simp add: start_def)
  from zero have "exit_code (main cfg ev) = 0" by (simp add: exit_code_def)
  with zero raised fetching extracting show ?thesis by blast
qed

text \<open>The theorem at a site that answers 403 four times.\<close>

theorem exit_zero_inside_boundary_witness:
  "fetch_html_with_warm (net ((calm (latch True))\<lparr>net := \<lambda>u i. Response 403 []\<rparr>)) (url cfg0) 3 800 =
     (Inl (fetch_failed (Some (Exn RuntimeError (cp ''Bad HTTP 403 or tiny body'')))), [4 / 5, 8 / 5, 12 / 5]) \<and>
   exit_code (main cfg0 ((calm (latch True))\<lparr>net := \<lambda>u i. Response 403 []\<rparr>)) = 0 \<and>
   map row_status (rows (snd (main cfg0 ((calm (latch True))\<lparr>net := \<lambda>u i. Response 403 []\<rparr>)))) = [ERROR] \<and>
   map row_note (rows (snd (main cfg0 ((calm (latch True))\<lparr>net := \<lambda>u i. Response 403 []\<rparr>)))) =
     [cp ''Fetch failed after retries: Bad HTTP 403 or tiny body''] \<and>
   stderr (snd (main cfg0 ((calm (latch True))\<lparr>net := \<lambda>u i. Response 403 []\<rparr>))) =
     [Plain (cp ''ERROR: Fetch failed after retries: Bad HTTP 403 or tiny body'')]"
proof -
  let ?ev = "(calm (latch True))\<lparr>net := \<lambda>u i. Response 403 []\<rparr>"
  have h1: "state_get (load_state (state_file ?ev)) = Inr ([(last_below_key, JBool True)], JBool True)"
    by (simp add: calm_fields latch_def load_state_def state_get_def)
  have h2: "log_handler ?ev = None" and h3: "save_handler ?ev = None"
    by (simp_all add: calm_fields)
  have h4: "fetch_html_with_warm (net ?ev) (url cfg0) 3 800 =
     (Inl (fetch_failed (Some (Exn RuntimeError (cp ''Bad HTTP 403 or tiny body'')))), [4 / 5, 8 / 5, 12 / 5])"
    by (simp add: fetch_403)
  from exit_zero_inside_boundary [OF h1 h2 h3, of cfg0] h4 show ?thesis
    by (simp add: fetch_failed_def cp_def)
qed

text \<open>
  The claim as it stands speaks of every run. It fails outside the \<^verbatim>\<open>try\<close> block.
  When the log cannot be written, the fetcher's error reaches the handler, the handler's
  own \<^verbatim>\<open>log_row\<close> raises, nothing is logged and the process ends with status 1. When
  the state file holds a JSON array, it is loaded as a list, \<^verbatim>\<open>state.get\<close> raises
  before the \<^verbatim>\<open>try\<close> block is entered, and the process ends the same way.
\<close>

theorem exit_zero_counterexample:
  "fst (fetch_html_with_warm (net no_log) (url cfg0) 3 800) =
     Inl (Exn RuntimeError (cp ''Fetch failed after retries: Bad HTTP 403 or tiny body'')) \<and>
   fst (main cfg0 no_log) = Inl (Exn OSError (cp ''[Errno 2] No such file or directory'')) \<and>
   exit_code (main cfg0 no_log) = 1 \<and>
   rows (snd (main cfg0 no_log)) = [] \<and>
   fst (main cfg0 (calm (Holds (JArr [])))) =
     Inl (Exn AttributeError
           ([39] @ cp ''list'' @ [39] @ cp '' object has no attribute '' @ [39] @ cp ''get'' @ [39])) \<and>
   exit_code (main cfg0 (calm (Holds (JArr [])))) = 1 \<and>
   rows (snd (main cfg0 (calm (Holds (JArr []))))) = []"
proof -
  have f: "fetch_html_with_warm (net no_log) (url cfg0) 3 800 =
     (Inl (Exn RuntimeError (cp ''Fetch failed after retries: Bad HTTP 403 or tiny body'')),
      [4 / 5, 8 / 5, 12 / 5])"
    by (simp add: no_log_def fetch_403 fetch_failed_def cp_def)
  have sg: "state_get (load_state (state_file no_log)) = Inr ([(last_below_key, JBool True)], JBool True)"
    by (simp add: no_log_def calm_fields latch_def load_state_def state_get_def)
  have lh: "log_handler no_log = Some (Exn OSError (cp ''[Errno 2] No such file or directory''))"
    by (simp add: no_log_def)
  have "main cfg0 no_log =
      (Inl (Exn OSError (cp ''[Errno 2] No such file or directory'')),
       (start no_log)\<lparr>sleeps := [4 / 5, 8 / 5, 12 / 5]\<rparr>)"
    by (simp add: main_def sg try_body_fetch_failed [OF f] handler_def log_row_def lh)
  then have a: "fst (main cfg0 no_log) = Inl (Exn OSError (cp ''[Errno 2] No such file or directory''))"
    "exit_code (main cfg0 no_log) = 1" "rows (snd (main cfg0 no_log)) = []"
    by (simp_all add: exit_code_def start_def)
  have b: "fst (main cfg0 (calm (Holds (JArr [])))) =
     Inl (Exn AttributeError
           ([39] @ cp ''list'' @ [39] @ cp '' object has no attribute '' @ [39] @ cp ''get'' @ [39]))"
    "exit_code (main cfg0 (calm (Holds (JArr [])))) = 1"
    "rows (snd (main cfg0 (calm (Holds (JArr []))))) = []"
    by (simp_all add: main_def exit_code_def calm_fields load_state_def state_get_def start_def)
  from f a b show ?thesis by simp
qed

text \<open>
  C4 (fetcher retry semantics), for a non-negative number of retries and a non-negative
  back-off. One attempt succeeds exactly when the target answers with a status in
  [200, 300) and a text of more than 1000 characters. The fetcher returns a text exactly
  when one of the attempts 0 to \<open>max_retries\<close> succeeds; it then returns the text of
  the first that does, after one sleep of \<open>backoff_ms * (i + 1)\<close> milliseconds behind
  each failed attempt \<open>i\<close> before it. When all \<open>max_retries + 1\<close> attempts fail it has
  slept behind each but the last, and raises the error whose text is
  \<^verbatim>\<open>Fetch failed after retries: \<close> followed by the text of the last attempt's error.
\<close>

theorem fetch_retry_semantics:
  assumes "0 \<le> max_retries" and "0 \<le> backoff_ms"
  shows
   "(run_attempt a = Inr body \<longleftrightarrow>
       (\<exists>status. a = Response status body \<and> 200 \<le> status \<and> status < 300 \<and> length body > 1000)) \<and>
    ((\<exists>body. fst (fetch_html_with_warm web u max_retries backoff_ms) = Inr body) \<longleftrightarrow>
       (\<exists>k. 0 \<le> k \<and> k \<le> max_retries \<and> \<not> isl (run_attempt (web u (nat k))))) \<and>
    (\<forall>k body. 0 \<le> k \<and> k \<le> max_retries \<and>
        (\<forall>i. 0 \<le> i \<and> i < k \<longrightarrow> isl (run_attempt (web u (nat i)))) \<and>
        run_attempt (web u (nat k)) = Inr body \<longrightarrow>
       fetch_html_with_warm web u max_retries backoff_ms =
         (Inr body, map (backoff_seconds backoff_ms) [0..k - 1])) \<and>
    ((\<forall>i. 0 \<le> i \<and> i \<le> max_retries \<longrightarrow> isl (run_attempt (web u (nat i)))) \<longrightarrow>
       fetch_html_with_warm web u max_retries backoff_ms =
         (Inl (fetch_failed (Some (projl (run_attempt (web u (nat max_retries)))))),
          map (backoff_seconds backoff_ms) [0..max_retries - 1])) \<and>
    backoff_seconds backoff_ms i * 1000 = of_int (backoff_ms * (i + 1)) \<and>
    str_exn (fetch_failed (Some e)) = cp ''Fetch failed after retries: '' @ str_exn e"
proof (intro conjI allI impI)
  show "run_attempt a = Inr body \<longleftrightarrow>
       (\<exists>status. a = Response status body \<and> 200 \<le> status \<and> status < 300 \<and> length body > 1000)"
    by (rule run_attempt_ok_iff)
  show "(\<exists>body. fst (fetch_html_with_warm web u max_retries backoff_ms) = Inr body) \<longleftrightarrow>
       (\<exists>k. 0 \<le> k \<and> k \<le> max_retries \<and> \<not> isl (run_attempt (web u (nat k))))"
    by (rule fetch_ok_iff [OF assms])
  show "fetch_html_with_warm web u max_retries backoff_ms =
         (Inr body, map (backoff_seconds backoff_ms) [0..k - 1])"
    if "0 \<le> k \<and> k \<le> max_retries \<and>
        (\<forall>i. 0 \<le> i \<and> i < k \<longrightarrow> isl (run_attempt (web u (nat i)))) \<and>
        run_attempt (web u (nat k)) = Inr body" for k body
    using that by (intro fetch_first_ok [where web = web and u = u, OF assms(2)]) simp_all
  show "fetch_html_with_warm web u max_retries backoff_ms =
         (Inl (fetch_failed (Some (projl (run_attempt (web u (nat max_retries)))))),
          map (backoff_seconds backoff_ms) [0..max_retries - 1])"
    if "\<forall>i. 0 \<le> i \<and> i \<le> max_retries \<longrightarrow> isl (run_attempt (web u (nat i)))"
    using that by (intro fetch_all_fail [where web = web and u = u, OF assms(2,1)])
  show "backoff_seconds backoff_ms i * 1000 = of_int (backoff_ms * (i + 1))"
    by (simp add: backoff_seconds_def)
  show "str_exn (fetch_failed (Some e)) = cp ''Fetch failed after retries: '' @ str_exn e"
    by (simp add: fetch_failed_def)
qed

text \<open>
  The theorem with three retries and 800 ms: at a site that fails twice and then answers,
  and at a site that answers 403 four times.
\<close>

theorem fetch_retry_semantics_witness:
  "(0::int) \<le> 3 \<and> (0::int) \<le> 800 \<and>
   fetch_html_with_warm flaky (url cfg0) 3 800 = (Inr page, [4 / 5, 8 / 5]) \<and>
   fetch_html_with_warm (\<lambda>u i. Response 403 []) (url cfg0) 3 800 =
     (Inl (Exn RuntimeError (cp ''Fetch failed after retries: Bad HTTP 403 or tiny body'')),
      [4 / 5, 8 / 5, 12 / 5])"
proof -
  have h1: "(0::int) \<le> 3" and h2: "(0::int) \<le> 800" by simp_all
  have up: "[0..1] = [0, 1::int]" "[0..2] = [0, 1, 2::int]"
    by (simp_all add: upto_rec1)
  have ok: "0 \<le> (2::int) \<and> (2::int) \<le> 3 \<and>
      (\<forall>i. 0 \<le> i \<and> i < 2 \<longrightarrow> isl (run_attempt (flaky (url cfg0) (nat i)))) \<and>
      run_attempt (flaky (url cfg0) (nat 2)) = Inr page"
    by (auto simp add: flaky_def check_response_def page_def)
  have bad: "\<forall>i. 0 \<le> i \<and> i \<le> 3 \<longrightarrow> isl (run_attempt ((\<lambda>u i. Response 403 []) (url cfg0) (nat i)))"
    by (simp add: check_response_def)
  from fetch_retry_semantics [OF h1 h2, of _ _ flaky "url cfg0"] ok
  have "fetch_html_with_warm flaky (url cfg0) 3 800 = (Inr page, map (backoff_seconds 800) [0..2 - 1])"
    by blast
  moreover from fetch_retry_semantics [OF h1 h2, of _ _ "\<lambda>u i. Response 403 []" "url cfg0"] bad
  have "fetch_html_with_warm (\<lambda>u i. Response 403 []) (url cfg0) 3 800 =
      (Inl (fetch_failed (Some (projl (run_attempt ((\<lambda>u i. Response 403 []) (url cfg0) (nat 3)))))),
       map (backoff_seconds 800) [0..3 - 1])"
    by blast
  ultimately show ?thesis
    by (simp add: up backoff_seconds_def fetch_failed_def check_response_def str_int_def
        digits10.simps cp_def)
qed

text \<open>
  C6 (the price text parser). For every text, \<^verbatim>\<open>parse_price_pln\<close> is \<^verbatim>\<open>float\<close>
  of the text cleaned as the specification says: non-breaking spaces become spaces, every
  space and every dot is dropped, a comma becomes a decimal point. It gives 244.95 on
  \<^verbatim>\<open>244,95\<close> and 1234.56 on \<^verbatim>\<open>1 234,56\<close> (with a space or a non-breaking
  space) and on \<^verbatim>\<open>1.234,56\<close>. When \<^verbatim>\<open>float\<close> rejects the cleaned text the
  function raises its \<^verbatim>\<open>ValueError\<close>, which names the cleaned text; nothing in the
  function catches it.
\<close>

theorem parse_price_pln_correct:
  "parse_price_pln s = py_float (spec_clean s) \<and>
   parse_price_pln (cp ''244,95'') = Inr (Fin (24495 / 100)) \<and>
   parse_price_pln (cp ''1 234,56'') = Inr (Fin (123456 / 100)) \<and>
   parse_price_pln (cp ''1.234,56'') = Inr (Fin (123456 / 100)) \<and>
   parse_price_pln (cp ''1'' @ [160] @ cp ''234,56'') = Inr (Fin (123456 / 100)) \<and>
   parse_price_pln (cp ''cena'') = Inl (float_error (cp ''cena'')) \<and>
   (isl (py_float (spec_clean s)) \<longrightarrow> parse_price_pln s = Inl (float_error (spec_clean s)))"
proof (intro conjI impI)
  show eq: "parse_price_pln s = py_float (spec_clean s)"
    by (simp add: parse_price_pln_def clean_price_spec)
  show "parse_price_pln (cp ''244,95'') = Inr (Fin (24495 / 100))"
    by (simp add: price_eval)
  show "parse_price_pln (cp ''1 234,56'') = Inr (Fin (123456 / 100))"
    by (simp add: price_eval)
  show "parse_price_pln (cp ''1.234,56'') = Inr (Fin (123456 / 100))"
    by (simp add: price_eval)
  show "parse_price_pln (cp ''1'' @ [160] @ cp ''234,56'') = Inr (Fin (123456 / 100))"
    by (simp add: price_eval)
  show "parse_price_pln (cp ''cena'') = Inl (float_error (cp ''cena''))"
    by (simp add: price_eval)
  assume "isl (py_float (spec_clean s))"
  then obtain e where "py_float (spec_clean s) = Inl e"
    by (cases "py_float (spec_clean s)") auto
  with py_float_error [OF this] eq show "parse_price_pln s = Inl (float_error (spec_clean s))"
    by simp
qed

text \<open>The theorem at a text with a currency suffix left in it.\<close>

theorem parse_price_pln_correct_witness:
  "isl (py_float (spec_clean (cp ''12 z'' @ [322]))) \<and>
   parse_price_pln (cp ''12 z'' @ [322]) = Inl (float_error (cp ''12z'' @ [322]))"
proof -
  have c: "spec_clean (cp ''12 z'' @ [322]) = cp ''12z'' @ [322]"
    by (simp add: spec_clean_def cp_def)
  have h: "isl (py_float (spec_clean (cp ''12 z'' @ [322])))"
    unfolding c by (simp add: float_eval py_isspace_def to_decimal_def nd_zeros_def)
  from parse_price_pln_correct [of "cp ''12 z'' @ [322]"]
  have "isl (py_float (spec_clean (cp ''12 z'' @ [322]))) \<longrightarrow>
      parse_price_pln (cp ''12 z'' @ [322]) = Inl (float_error (spec_clean (cp ''12 z'' @ [322])))"
    by blast
  with h have "parse_price_pln (cp ''12 z'' @ [322]) = Inl (float_error (spec_clean (cp ''12 z'' @ [322])))"
    by blast
  with h show ?thesis
    by (simp only: c simp_thms)
qed

text \<open>
  C5 (the extractor), for a page the HTML parser turns into the document \<open>doc\<close>.
  A row matches when it has a \<^verbatim>\<open>data-area\<close> attribute whose lower-cased value is
  \<^verbatim>\<open>plyta\<close> and the lower-cased join of its class tokens contains
  \<^verbatim>\<open>category\<close>. With no matching \<^verbatim>\<open>tr\<close> the result is \<^verbatim>\<open>None\<close>; otherwise
  the result is that of the first matching \<^verbatim>\<open>tr\<close> in document order. For a row
  \<open>r\<close> the result is \<^verbatim>\<open>None\<close> when no descendant is a \<^verbatim>\<open>td\<close> of class
  \<^verbatim>\<open>price\<close>, when the first such cell has no \<^verbatim>\<open>b\<close> below it, and when every
  text below its first \<^verbatim>\<open>b\<close> strips to nothing; otherwise it is what
  \<^verbatim>\<open>parse_price_pln\<close> makes of the text, its exception included. A first
  matching row that holds the cell \<open>cell_199\<close> (a \<^verbatim>\<open>td\<close> of class \<^verbatim>\<open>price\<close> with the bold text
  \<^verbatim>\<open>199,00\<close> and the currency suffix)
  gives 199.00.
\<close>

theorem extract_plate_price_contract:
  assumes "soup html = Inr doc"
  shows
   "(row_matches tr \<longleftrightarrow>
       (\<exists>v. attr tr (cp ''data-area'') = Some v \<and> py_lower v = cp ''plyta'') \<and>
       py_in (cp ''category'') (py_lower (py_join (cp '' '') (class_list tr)))) \<and>
    ((\<forall>x \<in> set (find_all (cp ''tr'') doc). \<not> row_matches x) \<longrightarrow>
       extract_plate_price soup html = Inr None) \<and>
    (\<forall>pre row post.
       find_all (cp ''tr'') doc = pre @ row # post \<and> (\<forall>x \<in> set pre. \<not> row_matches x) \<and>
       row_matches row \<longrightarrow>
       extract_plate_price soup html = price_of_row row) \<and>
    ((\<forall>n \<in> set (descendants r). \<not> is_price_cell n) \<longrightarrow> price_of_row r = Inr None) \<and>
    (\<forall>td. find_in r is_price_cell = Some td \<and>
          (\<forall>n \<in> set (descendants td). \<not> is_tag (cp ''b'') n) \<longrightarrow>
       price_of_row r = Inr None) \<and>
    (\<forall>td bold. find_in r is_price_cell = Some td \<and> find_in td (is_tag (cp ''b'')) = Some bold \<and>
          (\<forall>t. Text t \<in> set (descendants bold) \<longrightarrow> py_strip t = []) \<longrightarrow>
       price_of_row r = Inr None) \<and>
    (\<forall>td bold e. find_in r is_price_cell = Some td \<and> find_in td (is_tag (cp ''b'')) = Some bold \<and>
          get_text [] bold \<noteq> [] \<and> parse_price_pln (num_part bold) = Inl e \<longrightarrow>
       price_of_row r = Inl e) \<and>
    (\<forall>td bold p. find_in r is_price_cell = Some td \<and> find_in td (is_tag (cp ''b'')) = Some bold \<and>
          get_text [] bold \<noteq> [] \<and> parse_price_pln (num_part bold) = Inr p \<longrightarrow>
       price_of_row r = Inr (Some p)) \<and>
    (\<forall>pre post ats cls.
       find_all (cp ''tr'') doc = pre @ Elem (cp ''tr'') ats cls [cell_199] # post \<and>
       (\<forall>x \<in> set pre. \<not> row_matches x) \<and> row_matches (Elem (cp ''tr'') ats cls [cell_199]) \<longrightarrow>
       extract_plate_price soup html = Inr (Some (Fin 199)))"
proof -
  have sel: "row_matches tr \<longleftrightarrow>
       (\<exists>v. attr tr (cp ''data-area'') = Some v \<and> py_lower v = cp ''plyta'') \<and>
       py_in (cp ''category'') (py_lower (py_join (cp '' '') (class_list tr)))"
    by (auto simp add: row_matches_def split: option.splits)
  have none: "extract_plate_price soup html = Inr None"
    if "\<forall>x \<in> set (find_all (cp ''tr'') doc). \<not> row_matches x"
  proof -
    from that have "find row_matches (find_all (cp ''tr'') doc) = None"
      by (simp add: find_None_iff)
    then show ?thesis
      by (simp add: extract_plate_price_def assms first_row_find)
  qed
  have first: "extract_plate_price soup html = price_of_row row"
    if "find_all (cp ''tr'') doc = pre @ row # post \<and> (\<forall>x \<in> set pre. \<not> row_matches x) \<and>
       row_matches row" for pre row post
  proof -
    from that have "find row_matches (find_all (cp ''tr'') doc) = Some row"
      by (intro find_first_split [of _ pre row post]) simp_all
    then show ?thesis
      by (simp add: extract_plate_price_def assms first_row_find)
  qed
  have no_cell: "price_of_row r = Inr None"
    if "\<forall>n \<in> set (descendants r). \<not> is_price_cell n"
  proof -
    from that have "find_in r is_price_cell = None"
      by (simp add: find_in_def find_None_iff)
    then show ?thesis by (simp add: price_of_row_def)
  qed
  have no_bold: "price_of_row r = Inr None"
    if "find_in r is_price_cell = Some td \<and> (\<forall>n \<in> set (descendants td). \<not> is_tag (cp ''b'') n)"
    for td
  proof -
    from that have "find_in td (is_tag (cp ''b'')) = None"
      by (simp add: find_in_def find_None_iff)
    with that show ?thesis by (simp add: price_of_row_def)
  qed
  have empty_bold: "price_of_row r = Inr None"
    if "find_in r is_price_cell = Some td \<and> find_in td (is_tag (cp ''b'')) = Some bold \<and>
        (\<forall>t. Text t \<in> set (descendants bold) \<longrightarrow> py_strip t = [])" for td bold
  proof -
    from that have "get_text [] bold = []" by (simp add: get_text_empty_iff)
    with that show ?thesis by (simp add: price_of_row_def)
  qed
  have bad_text: "price_of_row r = Inl e"
    if "find_in r is_price_cell = Some td \<and> find_in td (is_tag (cp ''b'')) = Some bold \<and>
        get_text [] bold \<noteq> [] \<and> parse_price_pln (num_part bold) = Inl e" for td bold e
    using that by (simp add: price_of_row_def)
  have good_text: "price_of_row r = Inr (Some p)"
    if "find_in r is_price_cell = Some td \<and> find_in td (is_tag (cp ''b'')) = Some bold \<and>
        get_text [] bold \<noteq> [] \<and> parse_price_pln (num_part bold) = Inr p" for td bold p
    using that by (simp add: price_of_row_def)
  have example: "extract_plate_price soup html = Inr (Some (Fin 199))"
    if "find_all (cp ''tr'') doc = pre @ Elem (cp ''tr'') ats cls [cell_199] # post \<and>
       (\<forall>x \<in> set pre. \<not> row_matches x) \<and> row_matches (Elem (cp ''tr'') ats cls [cell_199])"
    for pre post ats cls
    using first [OF that] by (simp add: cell_199_price)
  from sel none first no_cell no_bold empty_bold bad_text good_text example
  show ?thesis by blast
qed

text \<open>
  The theorem at the example document, at a document whose only row is for another
  area, and at matching rows whose bold text is not a number or is blank.
\<close>

theorem extract_plate_price_contract_witness:
  "extract_plate_price (\<lambda>h. Inr doc_199) page = Inr (Some (Fin 199)) \<and>
   extract_plate_price (\<lambda>h. Inr [stand_row]) page = Inr None \<and>
   row_matches (priced_row (cp ''brak'')) \<and>
   price_of_row (priced_row (cp ''brak'')) = Inl (float_error (cp ''brak'')) \<and>
   price_of_row (priced_row (cp ''  '')) = Inr None"
proof -
  have "find_all (cp ''tr'') doc_199 =
      [] @ Elem (cp ''tr'') [(cp ''data-area'', cp ''plyta'')] (Some [cp ''category'', cp ''foo''])
             [cell_199] # [] \<and>
      (\<forall>x \<in> set []. \<not> row_matches x) \<and>
      row_matches (Elem (cp ''tr'') [(cp ''data-area'', cp ''plyta'')]
                     (Some [cp ''category'', cp ''foo'']) [cell_199])"
    using row_199_matches by (simp add: find_all_doc_199 row_199_def)
  with extract_plate_price_contract [of "\<lambda>h. Inr doc_199" page doc_199]
  have a: "extract_plate_price (\<lambda>h. Inr doc_199) page = Inr (Some (Fin 199))"
    by blast
  have "cp ''td'' \<noteq> cp ''tr''" "cp ''b'' \<noteq> cp ''tr''" "cp ''trybuna'' \<noteq> cp ''plyta''"
    by (simp_all add: cp_def)
  then have "\<forall>x \<in> set (find_all (cp ''tr'') [stand_row]). \<not> row_matches x"
    by (simp add: find_all_def stand_row_def cell_199_def bold_199_def row_matches_def
        py_lower_def lower_cp_def cp_def)
  with extract_plate_price_contract [of "\<lambda>h. Inr [stand_row]" page "[stand_row]"]
  have b: "extract_plate_price (\<lambda>h. Inr [stand_row]) page = Inr None"
    by blast
  have c: "row_matches (priced_row (cp ''brak''))"
    by (simp add: row_matches_def priced_row_def py_lower_def lower_cp_def cp_def)
  have "get_text [] (Elem (cp ''b'') [] None [Text (cp ''brak'')]) \<noteq> []"
    by (simp add: get_text_def py_strip_def py_isspace_def cp_def)
  moreover have "num_part (Elem (cp ''b'') [] None [Text (cp ''brak'')]) = cp ''brak''"
    by (simp add: num_part_def get_text_def py_strip_def py_isspace_def cp_def py_lower_def
        lower_cp_def zl_def py_replace.simps)
  moreover have "parse_price_pln (cp ''brak'') = Inl (float_error (cp ''brak''))"
    by (simp add: price_eval)
  ultimately have "find_in (priced_row (cp ''brak'')) is_price_cell =
        Some (Elem (cp ''td'') [] (Some [cp ''price'']) [Elem (cp ''b'') [] None [Text (cp ''brak'')]]) \<and>
      find_in (Elem (cp ''td'') [] (Some [cp ''price'']) [Elem (cp ''b'') [] None [Text (cp ''brak'')]])
        (is_tag (cp ''b'')) = Some (Elem (cp ''b'') [] None [Text (cp ''brak'')]) \<and>
      get_text [] (Elem (cp ''b'') [] None [Text (cp ''brak'')]) \<noteq> [] \<and>
      parse_price_pln (num_part (Elem (cp ''b'') [] None [Text (cp ''brak'')])) =
        Inl (float_error (cp ''brak''))"
    by (simp add: priced_row_cell priced_row_bold)
  with extract_plate_price_contract [of "\<lambda>h. Inr doc_199" page doc_199 _ "priced_row (cp ''brak'')"]
  have d: "price_of_row (priced_row (cp ''brak'')) = Inl (float_error (cp ''brak''))"
    by blast
  have "find_in (priced_row (cp ''  '')) is_price_cell =
        Some (Elem (cp ''td'') [] (Some [cp ''price'']) [Elem (cp ''b'') [] None [Text (cp ''  '')]]) \<and>
      find_in (Elem (cp ''td'') [] (Some [cp ''price'']) [Elem (cp ''b'') [] None [Text (cp ''  '')]])
        (is_tag (cp ''b'')) = Some (Elem (cp ''b'') [] None [Text (cp ''  '')]) \<and>
      (\<forall>t. Text t \<in> set (descendants (Elem (cp ''b'') [] None [Text (cp ''  '')])) \<longrightarrow>
         py_strip t = [])"
    by (simp add: priced_row_cell priced_row_bold) (simp add: py_strip_def py_isspace_def cp_def)
  with extract_plate_price_contract [of "\<lambda>h. Inr doc_199" page doc_199 _ "priced_row (cp ''  '')"]
  have e: "price_of_row (priced_row (cp ''  '')) = Inr None"
    by blast
  from a b c d e show ?thesis by simp
qed

end
